theory Spec2Isabelle
  imports Complex_Main "HOL-Library.List_Lexorder" "HOL-Library.Product_Lexorder"
begin

section \<open>Python values shared by the three scripts\<close>

text \<open>
  A Python \<open>str\<close> is a sequence of Unicode code points, and \<open>len\<close>, slicing and
  comparison work on code points. It is modelled as a list of code point numbers;
  \<open>str\<close> turns an ASCII literal into such a list.
\<close>

type_synonym pystr = "nat list"

definition str :: "string \<Rightarrow> pystr" where
  "str s = map of_char s"

text \<open>The exceptions the scripts can meet.\<close>

datatype error = KeyError | ValueError | TypeError | OSError

text \<open>\<open>sep.join(xs)\<close>.\<close>

fun join :: "pystr \<Rightarrow> pystr list \<Rightarrow> pystr" where
  "join sep [] = []"
| "join sep [x] = x"
| "join sep (x # y # ys) = x @ sep @ join sep (y # ys)"

text \<open>Decimal digits of a natural number, and \<open>str(n)\<close> of a Python \<open>int\<close>.\<close>

fun digits :: "nat \<Rightarrow> pystr" where
  "digits n = (if n < 10 then [48 + n] else digits (n div 10) @ [48 + n mod 10])"

declare digits.simps [simp del]

definition str_int :: "int \<Rightarrow> pystr" where
  "str_int i = (if i < 0 then str ''-'' @ digits (nat (- i)) else digits (nat i))"

text \<open>Two decimal digits with a leading zero, as \<open>%H\<close> and \<open>%M\<close> print them.\<close>

definition two_digits :: "nat \<Rightarrow> pystr" where
  "two_digits n = [48 + n div 10 mod 10, 48 + n mod 10]"


section \<open>Dates and times (\<open>datetime\<close>)\<close>

text \<open>
  The part of the library the departures script calls, after CPython 3.11
  (\<open>Modules/_datetimemodule.c\<close>). A \<open>datetime\<close> value; \<open>utcoffset\<close> is the offset
  of an aware value in microseconds and \<open>None\<close> for a naive one.
\<close>

record datetime =
  year :: nat
  month :: nat
  day :: nat
  hour :: nat
  minute :: nat
  second :: nat
  microsecond :: nat
  utcoffset :: "int option"

definition is_leap :: "nat \<Rightarrow> bool" where
  "is_leap y = (y mod 4 = 0 \<and> (y mod 100 \<noteq> 0 \<or> y mod 400 = 0))"

definition days_in_month :: "nat \<Rightarrow> nat \<Rightarrow> nat" where
  "days_in_month y m =
     (if m = 2 \<and> is_leap y then 29
      else [0, 31, 28, 31, 30, 31, 30, 31, 31, 30, 31, 30, 31] ! m)"

definition days_before_year :: "nat \<Rightarrow> int" where
  "days_before_year y =
     (let y1 = int y - 1 in y1 * 365 + y1 div 4 - y1 div 100 + y1 div 400)"

definition days_before_month :: "nat \<Rightarrow> nat \<Rightarrow> int" where
  "days_before_month y m =
     [0, 0, 31, 59, 90, 120, 151, 181, 212, 243, 273, 304, 334] ! m
       + (if m > 2 \<and> is_leap y then 1 else 0)"

definition ymd_to_ord :: "nat \<Rightarrow> nat \<Rightarrow> nat \<Rightarrow> int" where
  "ymd_to_ord y m d = days_before_year y + days_before_month y m + int d"

definition toordinal :: "datetime \<Rightarrow> int" where
  "toordinal d = ymd_to_ord (year d) (month d) (day d)"

subsection \<open>Division of integers into a float\<close>

text \<open>
  \<open>n / d\<close> on two Python integers, \<open>d\<close> positive: the double nearest to the
  quotient, ties going to the even significand, as a rational number. With \<open>e\<close> the
  exponent of the quotient (\<open>2^e \<le> |n| / d < 2^(e+1)\<close>), the result is a multiple of
  \<open>2^(e-52)\<close>. Overflow and subnormal results are out of reach of the quotients formed
  below and are not modelled.
\<close>

fun bit_length :: "nat \<Rightarrow> nat" where
  "bit_length n = (if n = 0 then 0 else Suc (bit_length (n div 2)))"

declare bit_length.simps [simp del]

definition scale2 :: "int \<Rightarrow> rat" where
  "scale2 e = (if 0 \<le> e then 2 ^ nat e else 1 / 2 ^ nat (- e))"

definition round_half_even :: "nat \<Rightarrow> nat \<Rightarrow> nat" where
  "round_half_even num den =
     (let q = num div den; r = num mod den
      in if 2 * r < den then q else if 2 * r > den then q + 1 else q + q mod 2)"

definition true_divide :: "int \<Rightarrow> nat \<Rightarrow> rat" where
  "true_divide n d =
     (if n = 0 then 0
      else
        (let a = nat \<bar>n\<bar>;
             k = int (bit_length a) - int (bit_length d);
             e = (if (if 0 \<le> k then d * 2 ^ nat k \<le> a else d \<le> a * 2 ^ nat (- k))
                  then k else k - 1);
             m = (if 0 \<le> e - 52 then round_half_even a (d * 2 ^ nat (e - 52))
                  else round_half_even (a * 2 ^ nat (52 - e)) d);
             r = of_nat m * scale2 (e - 52)
         in if 0 < n then r else - r))"

text \<open>
  \<open>(a - b).total_seconds()\<close>. Subtracting a naive value from an aware one (or the
  reverse) raises \<open>TypeError\<close>; two aware values are compared on the UTC timeline. The
  difference is a whole number of microseconds, and \<open>total_seconds\<close> divides it by a
  million into a float.
\<close>

definition seconds_of_day :: "datetime \<Rightarrow> int" where
  "seconds_of_day d = int (second d) + int (minute d) * 60 + int (hour d) * 3600"

definition base_microseconds :: "datetime \<Rightarrow> datetime \<Rightarrow> int" where
  "base_microseconds a b =
     ((toordinal a - toordinal b) * 86400 + (seconds_of_day a - seconds_of_day b)) * 1000000
       + (int (microsecond a) - int (microsecond b))"

definition sub_total_seconds :: "datetime \<Rightarrow> datetime \<Rightarrow> error + rat" where
  "sub_total_seconds a b =
     (case (utcoffset a, utcoffset b) of
        (None, None) \<Rightarrow> Inr (true_divide (base_microseconds a b) 1000000)
      | (Some oa, Some ob) \<Rightarrow>
          Inr (true_divide (base_microseconds a b + (ob - oa)) 1000000)
      | _ \<Rightarrow> Inl TypeError)"

text \<open>\<open>d.strftime('%H:%M')\<close>.\<close>

definition strftime_HM :: "datetime \<Rightarrow> pystr" where
  "strftime_HM d = two_digits (hour d) @ str '':'' @ two_digits (minute d)"

subsection \<open>\<open>datetime.fromisoformat\<close>\<close>

text \<open>
  The parser works on the UTF-8 bytes of the string, which end in a zero byte:
  \<open>byte_at\<close> reads a byte, and reads 0 at the end and after it.
\<close>

definition utf8_char :: "nat \<Rightarrow> nat list" where
  "utf8_char c =
     (if c < 0x80 then [c]
      else if c < 0x800 then [0xC0 + c div 64, 0x80 + c mod 64]
      else if c < 0x10000 then [0xE0 + c div 4096, 0x80 + c div 64 mod 64, 0x80 + c mod 64]
      else [0xF0 + c div 262144, 0x80 + c div 4096 mod 64, 0x80 + c div 64 mod 64,
            0x80 + c mod 64])"

definition utf8 :: "pystr \<Rightarrow> nat list" where
  "utf8 s = concat (map utf8_char s)"

definition byte_at :: "nat list \<Rightarrow> nat \<Rightarrow> nat" where
  "byte_at bs i = (if i < length bs then bs ! i else 0)"

definition is_digit :: "nat \<Rightarrow> bool" where
  "is_digit b = (48 \<le> b \<and> b \<le> 57)"

definition is_surrogate :: "nat \<Rightarrow> bool" where
  "is_surrogate c = (0xD800 \<le> c \<and> c \<le> 0xDFFF)"

text \<open>
  \<open>_sanitize_isoformat_str\<close>: a string of fewer than 7 characters is refused; the
  first surrogate at position 7, 8 or 10, where the separator can be, becomes \<open>T\<close>. A
  surrogate left anywhere else cannot be encoded, and the string is refused.
\<close>

definition sanitize_isoformat_str :: "pystr \<Rightarrow> pystr option" where
  "sanitize_isoformat_str s =
     (if length s < 7 then None
      else
        (case filter (\<lambda>pos. pos < length s \<and> is_surrogate (s ! pos)) [7, 8, 10] of
           [] \<Rightarrow> Some s
         | pos # _ \<Rightarrow> Some (s[pos := 84])))"

text \<open>\<open>_find_isoformat_datetime_separator\<close>; \<open>None\<close> is its result \<open>-1\<close>.\<close>

definition find_isoformat_datetime_separator :: "nat list \<Rightarrow> nat option" where
  "find_isoformat_datetime_separator bs =
     (let len = length bs
      in if len = 7 then Some 7
         else if byte_at bs 4 = 45 then
           (if byte_at bs 5 = 87 then
              (if len < 8 then None
               else if len > 8 \<and> byte_at bs 8 = 45 then
                 (if len = 9 then None
                  else if len > 10 \<and> is_digit (byte_at bs 10) then Some 8
                  else Some 10)
               else Some 8)
            else Some 10)
         else if byte_at bs 4 = 87 then
           (let idx = 7 + length (takeWhile is_digit (drop 7 bs))
            in if idx < 9 then Some idx else if even idx then Some 7 else Some 8)
         else Some 8)"

text \<open>
  \<open>parse_digits(ptr, &var, num_digits)\<close>: the position after the digits and their
  value, or \<open>None\<close> at the first byte that is no digit.
\<close>

definition parse_digits :: "nat list \<Rightarrow> nat \<Rightarrow> nat \<Rightarrow> (nat \<times> nat) option" where
  "parse_digits bs p num_digits =
     (let ds = take num_digits (drop p bs)
      in if length ds = num_digits \<and> list_all is_digit ds
         then Some (p + num_digits, foldl (\<lambda>var b. var * 10 + (b - 48)) 0 ds)
         else None)"

text \<open>The ISO week calendar: \<open>iso_week1_monday\<close>, \<open>ord_to_ymd\<close> and \<open>iso_to_ymd\<close>.\<close>

definition iso_week1_monday :: "nat \<Rightarrow> int" where
  "iso_week1_monday y =
     (let first_day = ymd_to_ord y 1 1;
          first_weekday = (first_day + 6) mod 7;
          week1_monday = first_day - first_weekday
      in if first_weekday > 3 then week1_monday + 7 else week1_monday)"

definition ord_to_ymd :: "int \<Rightarrow> nat \<times> nat \<times> nat" where
  "ord_to_ymd ordinal =
     (let o1 = nat (ordinal - 1);
          n400 = o1 div 146097; na = o1 mod 146097;
          n100 = na div 36524; nb = na mod 36524;
          n4 = nb div 1461; nc = nb mod 1461;
          n1 = nc div 365; n = nc mod 365;
          y = n400 * 400 + 1 + n100 * 100 + n4 * 4 + n1
      in if n1 = 4 \<or> n100 = 4 then (y - 1, 12, 31)
         else
           (let leapyear = (n1 = 3 \<and> (n4 \<noteq> 24 \<or> n100 = 3));
                m = (n + 50) div 32;
                preceding = [0, 0, 31, 59, 90, 120, 151, 181, 212, 243, 273, 304, 334] ! m
                              + (if m > 2 \<and> leapyear then 1 else 0)
            in if preceding > n
               then (y, m - 1, Suc (n - (preceding - days_in_month y (m - 1))))
               else (y, m, Suc (n - preceding))))"

definition iso_to_ymd :: "nat \<Rightarrow> nat \<Rightarrow> nat \<Rightarrow> (nat \<times> nat \<times> nat) option" where
  "iso_to_ymd iso_year iso_week iso_day =
     (if iso_year < 1 \<or> iso_year > 9999 then None
      else if (iso_week = 0 \<or> iso_week \<ge> 53)
              \<and> \<not> (iso_week = 53
                    \<and> (let first_weekday = (ymd_to_ord iso_year 1 1 + 6) mod 7
                        in first_weekday = 3 \<or> (first_weekday = 2 \<and> is_leap iso_year)))
      then None
      else if iso_day = 0 \<or> iso_day \<ge> 8 then None
      else Some (ord_to_ymd (iso_week1_monday iso_year
                              + (int iso_week - 1) * 7 + int iso_day - 1)))"

text \<open>
  \<open>parse_isoformat_date\<close> on the bytes before the separator at \<open>len\<close>: year, month
  and day as written, or the date of an ISO week and day.
\<close>

definition parse_isoformat_date :: "nat list \<Rightarrow> nat \<Rightarrow> (nat \<times> nat \<times> nat) option" where
  "parse_isoformat_date bs len =
     (case parse_digits bs 0 4 of
        None \<Rightarrow> None
      | Some (p0, y) \<Rightarrow>
          (let uses_separator = (byte_at bs p0 = 45);
               p1 = (if uses_separator then p0 + 1 else p0)
           in if byte_at bs p1 = 87 then
                (case parse_digits bs (p1 + 1) 2 of
                   None \<Rightarrow> None
                 | Some (p2, iso_week) \<Rightarrow>
                     if p2 < len then
                       (if uses_separator \<and> byte_at bs p2 \<noteq> 45 then None
                        else
                          (case parse_digits bs (if uses_separator then p2 + 1 else p2) 1 of
                             None \<Rightarrow> None
                           | Some (p3, iso_day) \<Rightarrow> iso_to_ymd y iso_week iso_day))
                     else iso_to_ymd y iso_week 1)
              else
                (case parse_digits bs p1 2 of
                   None \<Rightarrow> None
                 | Some (p2, m) \<Rightarrow>
                     if uses_separator \<and> byte_at bs p2 \<noteq> 45 then None
                     else
                       (case parse_digits bs (if uses_separator then p2 + 1 else p2) 2 of
                          None \<Rightarrow> None
                        | Some (p3, d) \<Rightarrow> Some (y, m, d)))))"

text \<open>
  The loop of \<open>parse_hh_mm_ss_ff\<close> over hour, minute and second, \<open>k\<close> fields still to
  read and \<open>vals\<close> read so far. \<open>Inl\<close> is a \<open>return\<close> from inside the loop, with the
  return code; \<open>Inr\<close> leaves the loop for the fraction at the position given.
\<close>

fun hh_mm_ss :: "nat list \<Rightarrow> nat \<Rightarrow> nat \<Rightarrow> bool \<Rightarrow> nat \<Rightarrow> nat list
                   \<Rightarrow> (int \<times> nat list) + (nat \<times> nat list)" where
  "hh_mm_ss bs p_end 0 has_separator p vals = Inr (p, vals)"
| "hh_mm_ss bs p_end (Suc k) has_separator p vals =
     (case parse_digits bs p 2 of
        None \<Rightarrow> Inl (- 3, [])
      | Some (p1, v) \<Rightarrow>
          (let c = byte_at bs p1;
               p2 = p1 + 1;
               has_sep = (if vals = [] then c = 58 else has_separator)
           in if p2 \<ge> p_end then Inl (if c \<noteq> 0 then 1 else 0, vals @ [v])
              else if has_sep \<and> c = 58 then hh_mm_ss bs p_end k has_sep p2 (vals @ [v])
              else if c = 46 \<or> c = 44 then Inr (p2, vals @ [v])
              else if \<not> has_sep then hh_mm_ss bs p_end k has_sep p1 (vals @ [v])
              else Inl (- 4, [])))"

text \<open>
  \<open>parse_hh_mm_ss_ff\<close> on the bytes from \<open>p\<close> to \<open>p_end\<close>: the return code (negative
  for a failure, 1 when bytes are left over, else 0) and hour, minute, second and
  microsecond. At most six digits of the fraction count; further digits are skipped.
\<close>

definition parse_hh_mm_ss_ff :: "nat list \<Rightarrow> nat \<Rightarrow> nat \<Rightarrow> int \<times> nat \<times> nat \<times> nat \<times> nat" where
  "parse_hh_mm_ss_ff bs p p_end =
     (case hh_mm_ss bs p_end 3 True p [] of
        Inl (rv, vals) \<Rightarrow> (rv, byte_at vals 0, byte_at vals 1, byte_at vals 2, 0)
      | Inr (pf, vals) \<Rightarrow>
          (let len_remains = p_end - pf;
               to_parse = (if len_remains \<ge> 6 then 6 else len_remains)
           in case parse_digits bs pf to_parse of
                None \<Rightarrow> (- 3, 0, 0, 0, 0)
              | Some (pd, us) \<Rightarrow>
                  (let usec = (if to_parse < 6
                               then us * [100000, 10000, 1000, 100, 10] ! (to_parse - 1)
                               else us);
                       pe = pd + length (takeWhile is_digit (drop pd bs))
                   in (if byte_at bs pe \<noteq> 0 then 1 else 0,
                       byte_at vals 0, byte_at vals 1, byte_at vals 2, usec))))"

text \<open>
  \<open>parse_isoformat_time\<close> on the \<open>len\<close> bytes from \<open>start\<close>: the time of day and,
  when a zone is written, its offset in seconds and the microseconds beside it.
\<close>

definition parse_isoformat_time ::
  "nat list \<Rightarrow> nat \<Rightarrow> nat \<Rightarrow> (nat \<times> nat \<times> nat \<times> nat \<times> (int \<times> int) option) option" where
  "parse_isoformat_time bs start len =
     (let p_end = start + len;
          is_zone = (\<lambda>c. c = 90 \<or> c = 43 \<or> c = 45);
          scanned = start + length (takeWhile (\<lambda>c. \<not> is_zone c) (drop start bs));
          tzinfo_pos = (if is_zone (byte_at bs start) then start
                        else if scanned < p_end then scanned else p_end)
      in case parse_hh_mm_ss_ff bs start tzinfo_pos of
           (rv, h, m, s, us) \<Rightarrow>
             if rv < 0 then None
             else if tzinfo_pos = p_end then (if rv = 1 then None else Some (h, m, s, us, None))
             else if byte_at bs tzinfo_pos = 90 then
               (if byte_at bs (tzinfo_pos + 1) \<noteq> 0 then None else Some (h, m, s, us, Some (0, 0)))
             else
               (let tzsign = (if byte_at bs tzinfo_pos = 45 then - 1 else 1)
                in case parse_hh_mm_ss_ff bs (tzinfo_pos + 1) p_end of
                     (rv2, th, tm, ts, tus) \<Rightarrow>
                       if rv2 \<noteq> 0 then None
                       else Some (h, m, s, us,
                                  Some (tzsign * (int th * 3600 + int tm * 60 + int ts),
                                        tzsign * int tus))))"

text \<open>
  \<open>tzinfo_from_isoformat_results\<close>: an offset of 0 seconds is UTC whatever the
  microseconds beside it; any other offset must lie strictly within 24 hours.
\<close>

definition tzinfo_offset :: "(int \<times> int) option \<Rightarrow> int option option" where
  "tzinfo_offset tz =
     (case tz of
        None \<Rightarrow> Some None
      | Some (tzoffset, tzusec) \<Rightarrow>
          if tzoffset = 0 then Some (Some 0)
          else
            (let off = tzoffset * 1000000 + tzusec
             in if - 86400000000 < off \<and> off < 86400000000 then Some (Some off) else None))"

text \<open>
  \<open>datetime.fromisoformat(date_string)\<close>. The byte after the date is the separator,
  of any value, one to four bytes long; the constructor checks the ranges at the end.
\<close>

definition fromisoformat :: "pystr \<Rightarrow> error + datetime" where
  "fromisoformat date_string =
     (case sanitize_isoformat_str date_string of
        None \<Rightarrow> Inl ValueError
      | Some clean \<Rightarrow>
          if list_ex is_surrogate clean then Inl ValueError
          else
            (let bs = utf8 clean; len = length bs
             in case find_isoformat_datetime_separator bs of
                  None \<Rightarrow> Inl ValueError
                | Some separator_location \<Rightarrow>
                    (case parse_isoformat_date bs separator_location of
                       None \<Rightarrow> Inl ValueError
                     | Some (y, m, d) \<Rightarrow>
                         (let b = byte_at bs separator_location;
                              p = separator_location
                                    + (if b < 0x80 then 1
                                       else if b div 16 = 0xE then 3
                                       else if b div 16 = 0xF then 4
                                       else 2);
                              tm = (if len > separator_location
                                    then parse_isoformat_time bs p (len - p)
                                    else Some (0, 0, 0, 0, None))
                          in case tm of
                               None \<Rightarrow> Inl ValueError
                             | Some (h, mi, sec, us, tz) \<Rightarrow>
                                 (case tzinfo_offset tz of
                                    None \<Rightarrow> Inl ValueError
                                  | Some off \<Rightarrow>
                                      if 1 \<le> y \<and> y \<le> 9999 \<and> 1 \<le> m \<and> m \<le> 12
                                         \<and> 1 \<le> d \<and> d \<le> days_in_month y m
                                         \<and> h < 24 \<and> mi < 60 \<and> sec < 60
                                      then Inr \<lparr>year = y, month = m, day = d, hour = h,
                                                minute = mi, second = sec, microsecond = us,
                                                utcoffset = off\<rparr>
                                      else Inl ValueError)))))"


section \<open>The departures board: \<open>cm_departures.py\<close>\<close>

subsection \<open>The payload\<close>

text \<open>
  The JSON the departures API returns, with every key the script reads. A key that may
  be missing is an \<open>option\<close>; the payload itself is \<open>None\<close> when the fetch gave
  nothing (or an empty object).
\<close>

record route =
  r_id :: "pystr option"
  r_name :: "pystr option"
  r_color :: "pystr option"
  r_text_color :: "pystr option"

record service =
  s_route_id :: "pystr option"
  s_headsign :: "pystr option"
  s_live_departures_seconds :: "int list option"
  s_next_departures :: "pystr list option"

record stop =
  st_services :: "service list option"
  st_routes :: "route list option"

record payload =
  stops :: "stop list option"

subsection \<open>The rows\<close>

text \<open>
  A value stored under a key of a row: the script stores strings, the specification
  also speaks of sequences of strings.
\<close>

datatype pyval = PyStr pystr | PyList "pystr list"

text \<open>
  The dictionary \<open>departure_info\<close>. The key \<open>additional_times\<close> is present only for
  some scheduled rows; \<open>sort_key\<close> is the number of seconds until the departure.
\<close>

record departure =
  route_name :: pystr
  headsign :: pystr
  color :: pystr
  text_color :: pystr
  time_text :: pystr
  is_live :: bool
  dep_sort_key :: rat
  additional_times :: "pyval option"

definition MAX_BUSES :: nat where
  "MAX_BUSES = 4"

text \<open>
  \<open>routes = {r['id']: r for r in stop.get('routes', [])}\<close>: a later route with the same
  id replaces an earlier one, and a route without an id raises \<open>KeyError\<close>.
\<close>

fun build_routes :: "(pystr \<rightharpoonup> route) \<Rightarrow> route list \<Rightarrow> error + (pystr \<rightharpoonup> route)" where
  "build_routes m [] = Inr m"
| "build_routes m (r # rs) =
     (case r_id r of None \<Rightarrow> Inl KeyError | Some i \<Rightarrow> build_routes (m(i \<mapsto> r)) rs)"

text \<open>\<open>d.get(key, default)\<close> on an optional field.\<close>

definition get_default :: "'a option \<Rightarrow> 'a \<Rightarrow> 'a" where
  "get_default v d = (case v of None \<Rightarrow> d | Some x \<Rightarrow> x)"

text \<open>\<open>'key' in service and service['key']\<close>: the key is present and its list is not empty.\<close>

definition present :: "'a list option \<Rightarrow> bool" where
  "present v = (case v of None \<Rightarrow> False | Some xs \<Rightarrow> xs \<noteq> [])"

text \<open>The further departure times, \<open>next_departures[1:3]\<close>, each parsed and formatted.\<close>

fun format_times :: "pystr list \<Rightarrow> error + pystr list" where
  "format_times [] = Inr []"
| "format_times (s # ss) =
     (case fromisoformat s of
        Inl e \<Rightarrow> Inl e
      | Inr dep_time \<Rightarrow>
          (case format_times ss of
             Inl e \<Rightarrow> Inl e
           | Inr ts \<Rightarrow> Inr (strftime_HM dep_time # ts)))"

text \<open>
  The body of the loop over the services: \<open>Inr None\<close> is \<open>continue\<close> (no row),
  \<open>Inr (Some row)\<close> is the row appended to \<open>departures\<close>.
\<close>

definition parse_service ::
  "datetime \<Rightarrow> (pystr \<rightharpoonup> route) \<Rightarrow> service \<Rightarrow> error + departure option" where
  "parse_service current_time routes sv =
     (case s_route_id sv of
        None \<Rightarrow> Inl KeyError
      | Some route_id \<Rightarrow>
          (let rt = routes route_id;
               name = (case rt of None \<Rightarrow> str ''???'' | Some r \<Rightarrow> get_default (r_name r) (str ''???''));
               col = (case rt of None \<Rightarrow> str ''#888888'' | Some r \<Rightarrow> get_default (r_color r) (str ''#888888''));
               tcol = (case rt of None \<Rightarrow> str ''#FFFFFF'' | Some r \<Rightarrow> get_default (r_text_color r) (str ''#FFFFFF''));
               hs = get_default (s_headsign sv) (str '''')
           in
             if present (s_live_departures_seconds sv) then
               (let seconds = hd (the (s_live_departures_seconds sv));
                    minutes = seconds div 60
                in Inr (Some \<lparr>route_name = name, headsign = hs, color = col, text_color = tcol,
                              time_text = str_int minutes @ str '' min'', is_live = True,
                              dep_sort_key = of_int seconds, additional_times = None\<rparr>))
             else if present (s_next_departures sv) then
               (let nd = the (s_next_departures sv) in
                  case fromisoformat (hd nd) of
                    Inl e \<Rightarrow> Inl e
                  | Inr next_dep \<Rightarrow>
                      (case format_times (take 2 (tl nd)) of
                         Inl e \<Rightarrow> Inl e
                       | Inr additional \<Rightarrow>
                           (case sub_total_seconds next_dep current_time of
                              Inl e \<Rightarrow> Inl e
                            | Inr secs \<Rightarrow>
                                Inr (Some \<lparr>route_name = name, headsign = hs, color = col,
                                           text_color = tcol, time_text = strftime_HM next_dep,
                                           is_live = False, dep_sort_key = secs,
                                           additional_times =
                                             (if additional = [] then None
                                              else Some (PyStr (join (str '', '') additional)))\<rparr>))))
             else Inr None))"

text \<open>The loop: the rows of the services in order, stopping at the first exception.\<close>

fun parse_services ::
  "datetime \<Rightarrow> (pystr \<rightharpoonup> route) \<Rightarrow> service list \<Rightarrow> error + departure list" where
  "parse_services current_time routes [] = Inr []"
| "parse_services current_time routes (sv # svs) =
     (case parse_service current_time routes sv of
        Inl e \<Rightarrow> Inl e
      | Inr row \<Rightarrow>
          (case parse_services current_time routes svs of
             Inl e \<Rightarrow> Inl e
           | Inr rows \<Rightarrow> Inr (case row of None \<Rightarrow> rows | Some r \<Rightarrow> r # rows)))"

text \<open>
  \<open>datetime.now(timezone.utc)\<close>: the reading of the UTC clock, as an aware value of
  offset 0.
\<close>

definition now_utc :: "datetime \<Rightarrow> datetime" where
  "now_utc utc_clock = utc_clock\<lparr>utcoffset := Some 0\<rparr>"

text \<open>
  \<open>parse_departures(data)\<close>, run when the UTC clock reads \<open>utc_clock\<close>; the clock is
  read once, before the loop. The list method \<open>sort\<close> is stable, as \<open>sort_key\<close> is.
\<close>

definition parse_departures :: "datetime \<Rightarrow> payload option \<Rightarrow> error + departure list" where
  "parse_departures utc_clock data =
     (case data of
        None \<Rightarrow> Inr []
      | Some d \<Rightarrow>
          (case stops d of
             None \<Rightarrow> Inr []
           | Some [] \<Rightarrow> Inr []
           | Some (stp # _) \<Rightarrow>
               (case build_routes Map.empty (get_default (st_routes stp) []) of
                  Inl e \<Rightarrow> Inl e
                | Inr routes \<Rightarrow>
                    (case parse_services (now_utc utc_clock) routes (get_default (st_services stp) []) of
                       Inl e \<Rightarrow> Inl e
                     | Inr departures \<Rightarrow>
                         Inr (take MAX_BUSES (sort_key dep_sort_key departures))))))"


section \<open>The task board: \<open>todoist_today.py\<close>, the parser\<close>

text \<open>
  The two lists the fetcher returns. An active task is a JSON object whose keys may be
  missing; an entry of the completed list may fail to be an object at all.
\<close>

record due_info =
  d_string :: "pystr option"

record task =
  t_content :: "pystr option"
  t_priority :: "int option"
  t_project_id :: "pystr option"
  t_due :: "due_info option"
  t_labels :: "pystr list option"

record completed_item =
  c_content :: "pystr option"
  c_project_id :: "pystr option"
  c_task_id :: "pystr option"

datatype json_item = Dict completed_item | NotDict

record tasks_data =
  td_active :: "task list option"
  td_completed :: "json_item list option"

text \<open>The dictionary \<open>task_info\<close>; \<open>sort_key\<close> is the triple (group, rank, text).\<close>

record task_info =
  content :: pystr
  priority :: int
  project_id :: pystr
  due :: "due_info option"
  labels :: "pystr list"
  completed :: bool
  due_text :: pystr
  task_sort_key :: "nat \<times> int \<times> pystr"

definition MAX_TASKS :: nat where
  "MAX_TASKS = 6"

text \<open>
  The body of the first loop. \<open>lower\<close> is \<open>str.lower\<close>, a parameter of the model:
  nothing proved below depends on what it does to a string.
\<close>

definition parse_active :: "(pystr \<Rightarrow> pystr) \<Rightarrow> task \<Rightarrow> task_info" where
  "parse_active lower t =
     (let c = get_default (t_content t) (str ''Untitled Task'');
          p = get_default (t_priority t) 1;
          due_string = (case t_due t of None \<Rightarrow> [] | Some d \<Rightarrow> get_default (d_string d) [])
      in \<lparr>content = c, priority = p, project_id = get_default (t_project_id t) [],
           due = t_due t, labels = get_default (t_labels t) [], completed = False,
           due_text = (if due_string \<noteq> [] then due_string else str ''Today''),
           task_sort_key = (0, 5 - p, lower c)\<rparr>)"

text \<open>The body of the second loop: an entry that is not an object gives no row.\<close>

fun parse_completed :: "(pystr \<Rightarrow> pystr) \<Rightarrow> json_item list \<Rightarrow> task_info list" where
  "parse_completed lower [] = []"
| "parse_completed lower (NotDict # items) = parse_completed lower items"
| "parse_completed lower (Dict item # items) =
     \<lparr>content = get_default (c_content item) (str ''Untitled Task''), priority = 1,
      project_id = get_default (c_project_id item) [], due = None, labels = [],
      completed = True, due_text = str ''Completed'',
      task_sort_key = (1, 0, lower (get_default (c_content item) []))\<rparr>
       # parse_completed lower items"

definition parse_tasks :: "(pystr \<Rightarrow> pystr) \<Rightarrow> tasks_data option \<Rightarrow> task_info list" where
  "parse_tasks lower data =
     (case data of
        None \<Rightarrow> []
      | Some d \<Rightarrow>
          take MAX_TASKS
            (sort_key task_sort_key
               (map (parse_active lower) (get_default (td_active d) [])
                  @ parse_completed lower (get_default (td_completed d) []))))"

text \<open>\<open>str.lower\<close> on the ASCII letters, for running the parser on examples.\<close>

definition ascii_lower :: "pystr \<Rightarrow> pystr" where
  "ascii_lower s = map (\<lambda>c. if 65 \<le> c \<and> c \<le> 90 then c + 32 else c) s"


section \<open>The drawing surface and the world around the scripts\<close>

text \<open>
  An image is its size, its background and the drawing operations applied to it, in
  order: the calls on \<open>ImageDraw\<close> with their arguments. Colours are the strings the
  script passes; Pillow's reading of them is not part of the model.
\<close>

type_synonym point = "int \<times> int"
type_synonym bbox = "int \<times> int \<times> int \<times> int"

text \<open>
  A typeface file is known by the box it gives a text at a size, drawn at the origin:
  (left, top, right, bottom).
\<close>

datatype face = Face "nat \<Rightarrow> pystr \<Rightarrow> bbox"

datatype font = Truetype face nat | Load_default

datatype draw_op =
    Rectangle point point pystr
  | Text point pystr pystr font
  | Line point point pystr int
  | Ellipse point point "pystr option" "pystr option" int

record image =
  im_size :: "int \<times> int"
  im_bg :: pystr
  im_ops :: "draw_op list"

text \<open>A file: a typeface, an image saved as JPEG at a quality, a directory, or other data.\<close>

datatype file_data = FontFile face | JpegFile image nat | Directory | OtherFile

datatype http_outcome = Response nat pystr | RequestException

record http_request =
  url :: pystr
  file_name :: pystr
  file_body :: file_data
  content_type :: pystr
  timeout :: nat

text \<open>
  What the scripts read from outside: the local clock, the files, the box Pillow's
  built-in font gives a text, the two environment variables of the uploader and the
  answer of the device to a request.
\<close>

record world =
  clock :: datetime
  files :: "pystr \<Rightarrow> file_data option"
  default_bbox :: "pystr \<Rightarrow> bbox"
  env_DEVICE_URL :: "pystr option"
  env_UPLOAD_DIR :: "pystr option"
  post :: "http_request \<Rightarrow> http_outcome"

definition FONT_PATH :: pystr where
  "FONT_PATH = str ''/System/Library/Fonts/Helvetica.ttc''"

text \<open>\<open>ImageFont.truetype(path, size)\<close> raises \<open>OSError\<close> unless the file is a typeface.\<close>

definition truetype :: "world \<Rightarrow> pystr \<Rightarrow> nat \<Rightarrow> error + font" where
  "truetype w path sz =
     (case files w path of Some (FontFile f) \<Rightarrow> Inr (Truetype f sz) | _ \<Rightarrow> Inl OSError)"

fun font_bbox :: "world \<Rightarrow> font \<Rightarrow> pystr \<Rightarrow> bbox" where
  "font_bbox w (Truetype (Face f) sz) t = f sz t"
| "font_bbox w Load_default t = default_bbox w t"

text \<open>\<open>draw.textbbox(xy, text, font=font)\<close>: the box of the font, moved to \<open>xy\<close>.\<close>

definition textbbox :: "world \<Rightarrow> point \<Rightarrow> pystr \<Rightarrow> font \<Rightarrow> bbox" where
  "textbbox w xy t fnt =
     (case font_bbox w fnt t of
        (l, tp, r, b) \<Rightarrow> (l + fst xy, tp + snd xy, r + fst xy, b + snd xy))"

definition bbox0 :: "bbox \<Rightarrow> int" where
  "bbox0 bb = fst bb"

definition bbox2 :: "bbox \<Rightarrow> int" where
  "bbox2 bb = fst (snd (snd bb))"

text \<open>\<open>img.save(output_path, 'JPEG', quality=95)\<close>, on a path that can be written.\<close>

definition save :: "world \<Rightarrow> pystr \<Rightarrow> image \<Rightarrow> world" where
  "save w output_path img = w\<lparr>files := (files w)(output_path \<mapsto> JpegFile img 95)\<rparr>"

definition IMAGE_WIDTH :: int where
  "IMAGE_WIDTH = 240"

definition IMAGE_HEIGHT :: int where
  "IMAGE_HEIGHT = 240"


section \<open>The departures board: the renderer\<close>

definition cm_BG_COLOR :: pystr where
  "cm_BG_COLOR = str ''#000000''"

definition HEADER_COLOR :: pystr where
  "HEADER_COLOR = str ''#1a1a1a''"

definition cm_TEXT_COLOR :: pystr where
  "cm_TEXT_COLOR = str ''#FFFFFF''"

definition cm_ACCENT_COLOR :: pystr where
  "cm_ACCENT_COLOR = str ''#FFA500''"

definition GRID_COLOR :: pystr where
  "GRID_COLOR = str ''#2a2a2a''"

record cm_fonts =
  header_font :: font
  route_font :: font
  dest_font :: font
  cm_time_font :: font
  small_font :: font
  next_time_font :: font

text \<open>
  The \<open>try\<close> block loads six sizes of one file; any failure sends all six names to
  the built-in font.
\<close>

definition cm_load_fonts :: "world \<Rightarrow> cm_fonts" where
  "cm_load_fonts w =
     (case (truetype w FONT_PATH 16, truetype w FONT_PATH 30, truetype w FONT_PATH 11,
            truetype w FONT_PATH 24, truetype w FONT_PATH 9, truetype w FONT_PATH 11) of
        (Inr a, Inr b, Inr c, Inr d, Inr e, Inr f) \<Rightarrow>
          \<lparr>header_font = a, route_font = b, dest_font = c, cm_time_font = d,
           small_font = e, next_time_font = f\<rparr>
      | _ \<Rightarrow>
          \<lparr>header_font = Load_default, route_font = Load_default, dest_font = Load_default,
           cm_time_font = Load_default, small_font = Load_default,
           next_time_font = Load_default\<rparr>)"

text \<open>
  \<open>f"{value}"\<close>: a string as it is, a list as its \<open>repr\<close> (of strings without quotes
  or escapes in them).
\<close>

definition py_format :: "pyval \<Rightarrow> pystr" where
  "py_format v =
     (case v of
        PyStr s \<Rightarrow> s
      | PyList xs \<Rightarrow>
          str ''['' @ join (str '', '') (map (\<lambda>x. str [CHR 0x27] @ x @ str [CHR 0x27]) xs) @ str '']'')"

text \<open>Everything drawn before the rows: the header band, the clock, the captions.\<close>

definition cm_header :: "world \<Rightarrow> cm_fonts \<Rightarrow> draw_op list" where
  "cm_header w fs =
     (let current_time = strftime_HM (clock w);
          bb = textbbox w (0, 0) current_time (header_font fs);
          time_width = bbox2 bb - bbox0 bb;
          col_y = 32
      in [Rectangle (0, 0) (IMAGE_WIDTH, 28) HEADER_COLOR,
          Text (8, 6) (str ''DEPARTURES'') cm_TEXT_COLOR (header_font fs),
          Text (IMAGE_WIDTH - time_width - 8, 6) current_time (str ''#888888'') (header_font fs),
          Line (0, 28) (IMAGE_WIDTH, 28) GRID_COLOR 2,
          Text (8, col_y) (str ''LINE'') (str ''#888888'') (small_font fs),
          Text (65, col_y) (str ''DESTINATION'') (str ''#888888'') (small_font fs),
          Text (185, col_y) (str ''TIME'') (str ''#888888'') (small_font fs),
          Line (0, 45) (IMAGE_WIDTH, 45) GRID_COLOR 1])"

text \<open>The body of the loop for row \<open>i\<close> at \<open>y_offset\<close>.\<close>

definition cm_row :: "world \<Rightarrow> cm_fonts \<Rightarrow> nat \<Rightarrow> int \<Rightarrow> departure \<Rightarrow> draw_op list" where
  "cm_row w fs i y_offset dep =
     (let row_height = 47;
          route_x = 8;
          route_y = y_offset + 8;
          bar_width = 4;
          bar_height = 30;
          dest_x = 80;
          dest_y = route_y + 1;
          max_chars = 11;
          hs = (if length (headsign dep) > max_chars
                then take (max_chars - 1) (headsign dep) @ str ''.''
                else headsign dep);
          time_color = (if is_live dep then cm_ACCENT_COLOR else cm_TEXT_COLOR);
          bb = textbbox w (0, 0) (time_text dep) (cm_time_font fs);
          time_width = bbox2 bb - bbox0 bb;
          time_x = IMAGE_WIDTH - time_width - 6;
          time_y = route_y + 1;
          dot_x = time_x - 10;
          dot_y = time_y + 10;
          line_y = y_offset + row_height - 2
      in (if i mod 2 = 1
          then [Rectangle (0, y_offset - 2) (IMAGE_WIDTH, y_offset + row_height - 2) (str ''#0a0a0a'')]
          else [])
         @ [Rectangle (route_x, route_y - 2) (route_x + bar_width, route_y + bar_height) (color dep),
            Text (route_x + bar_width + 6, route_y) (route_name dep) cm_TEXT_COLOR (route_font fs),
            Text (dest_x, dest_y) hs (str ''#CCCCCC'') (dest_font fs)]
         @ (case additional_times dep of
              None \<Rightarrow> []
            | Some v \<Rightarrow> [Text (dest_x, dest_y + 15) (py_format v) (str ''#999999'') (next_time_font fs)])
         @ [Text (time_x, time_y) (time_text dep) time_color (cm_time_font fs)]
         @ (if is_live dep
            then [Ellipse (dot_x, dot_y) (dot_x + 6, dot_y + 6) (Some cm_ACCENT_COLOR) None 1]
            else [])
         @ (if i < MAX_BUSES - 1
            then [Line (8, line_y) (IMAGE_WIDTH - 8, line_y) GRID_COLOR 1]
            else []))"

text \<open>The loop over \<open>enumerate(departures)\<close>, with its \<open>break\<close>.\<close>

fun cm_rows :: "world \<Rightarrow> cm_fonts \<Rightarrow> nat \<Rightarrow> int \<Rightarrow> departure list \<Rightarrow> draw_op list" where
  "cm_rows w fs i y_offset [] = []"
| "cm_rows w fs i y_offset (dep # deps) =
     (if i \<ge> MAX_BUSES then []
      else cm_row w fs i y_offset dep @ cm_rows w fs (Suc i) (y_offset + 47) deps)"

text \<open>The image as it stands when it is saved.\<close>

definition cm_render :: "world \<Rightarrow> departure list \<Rightarrow> image" where
  "cm_render w departures =
     (let fs = cm_load_fonts w
      in \<lparr>im_size = (IMAGE_WIDTH, IMAGE_HEIGHT), im_bg = cm_BG_COLOR,
          im_ops = cm_header w fs @ cm_rows w fs 0 50 departures\<rparr>)"

text \<open>
  \<open>create_display_image(departures, output_path)\<close>: the path it returns, and the world
  with the image saved.
\<close>

definition cm_create_display_image :: "world \<Rightarrow> departure list \<Rightarrow> pystr \<Rightarrow> pystr \<times> world" where
  "cm_create_display_image w departures output_path =
     (output_path, save w output_path (cm_render w departures))"

definition departures_jpg :: pystr where
  "departures_jpg = str ''departures.jpg''"


section \<open>The task board: the renderer\<close>

definition todoist_BG_COLOR :: pystr where
  "todoist_BG_COLOR = str ''#1a1a1a''"

definition todoist_TEXT_COLOR :: pystr where
  "todoist_TEXT_COLOR = str ''#ffffff''"

definition todoist_ACCENT_COLOR :: pystr where
  "todoist_ACCENT_COLOR = str ''#de4c4a''"

definition COMPLETED_COLOR :: pystr where
  "COMPLETED_COLOR = str ''#6b6b6b''"

definition BORDER_COLOR :: pystr where
  "BORDER_COLOR = str ''#2a2a2a''"

text \<open>\<open>PRIORITY_COLORS.get(priority, "#808080")\<close>.\<close>

definition PRIORITY_COLORS :: "int \<rightharpoonup> pystr" where
  "PRIORITY_COLORS =
     [4 \<mapsto> str ''#d1453b'', 3 \<mapsto> str ''#eb8909'', 2 \<mapsto> str ''#4073ff'', 1 \<mapsto> str ''#808080'']"

record todoist_fonts =
  title_font :: font
  task_font :: font
  label_font :: font
  todoist_time_font :: font

definition todoist_load_fonts :: "world \<Rightarrow> todoist_fonts" where
  "todoist_load_fonts w =
     (case (truetype w FONT_PATH 16, truetype w FONT_PATH 13, truetype w FONT_PATH 10,
            truetype w FONT_PATH 11) of
        (Inr a, Inr b, Inr c, Inr d) \<Rightarrow>
          \<lparr>title_font = a, task_font = b, label_font = c, todoist_time_font = d\<rparr>
      | _ \<Rightarrow>
          \<lparr>title_font = Load_default, task_font = Load_default, label_font = Load_default,
           todoist_time_font = Load_default\<rparr>)"

text \<open>The title, the count of tasks and the line under them.\<close>

definition todoist_header :: "todoist_fonts \<Rightarrow> task_info list \<Rightarrow> draw_op list" where
  "todoist_header fs tasks =
     (let active_count = length (filter (\<lambda>t. \<not> completed t) tasks);
          completed_count = length (filter completed tasks);
          task_count =
            (if completed_count > 0
             then str_int (int active_count) @ str '' active '' @ [183] @ str '' ''
                    @ str_int (int completed_count) @ str '' completed''
             else str_int (int active_count) @ str '' tasks'')
      in [Text (12, 10) (str ''Today'') todoist_ACCENT_COLOR (title_font fs),
          Text (12, 30) task_count (str ''#888888'') (label_font fs),
          Line (0, 50) (IMAGE_WIDTH, 50) BORDER_COLOR 1])"

text \<open>The body of the loop for row \<open>i\<close> at \<open>y_offset\<close>; \<open>n\<close> is \<open>len(tasks)\<close>.\<close>

definition todoist_row ::
  "world \<Rightarrow> todoist_fonts \<Rightarrow> nat \<Rightarrow> nat \<Rightarrow> int \<Rightarrow> task_info \<Rightarrow> draw_op list" where
  "todoist_row w fs n i y_offset tk =
     (let row_height = 36;
          is_completed = completed tk;
          checkbox_x = 12;
          checkbox_y = y_offset + 2;
          checkbox_size = 16;
          content_x = checkbox_x + checkbox_size + 10;
          content_y = checkbox_y;
          max_chars = 26;
          task_text = (if length (content tk) > max_chars
                       then take (max_chars - 3) (content tk) @ str ''...''
                       else content tk);
          text_color = (if is_completed then COMPLETED_COLOR else todoist_TEXT_COLOR);
          info_y = content_y + 18;
          line_y = y_offset + row_height - 2
      in (if is_completed
          then [Ellipse (checkbox_x, checkbox_y) (checkbox_x + checkbox_size, checkbox_y + checkbox_size)
                  (Some COMPLETED_COLOR) (Some COMPLETED_COLOR) 1,
                Line (checkbox_x + 4, checkbox_y + 8) (checkbox_x + 7, checkbox_y + 11) (str ''#ffffff'') 2,
                Line (checkbox_x + 7, checkbox_y + 11) (checkbox_x + 12, checkbox_y + 5) (str ''#ffffff'') 2]
          else [Ellipse (checkbox_x, checkbox_y) (checkbox_x + checkbox_size, checkbox_y + checkbox_size)
                  None (Some (get_default (PRIORITY_COLORS (priority tk)) (str ''#808080''))) 2])
         @ [Text (content_x, content_y) task_text text_color (task_font fs)]
         @ (if is_completed
            then [Line (content_x, content_y + 8)
                    (bbox2 (textbbox w (content_x, content_y) task_text (task_font fs)), content_y + 8)
                    COMPLETED_COLOR 1]
            else [])
         @ (if \<not> is_completed \<and> due_text tk \<noteq> []
            then [Text (content_x, info_y) (due_text tk) (str ''#666666'') (todoist_time_font fs)]
            else [])
         @ (if int i < int n - 1
            then [Line (12, line_y) (228, line_y) BORDER_COLOR 1]
            else []))"

fun todoist_rows ::
  "world \<Rightarrow> todoist_fonts \<Rightarrow> nat \<Rightarrow> nat \<Rightarrow> int \<Rightarrow> task_info list \<Rightarrow> draw_op list" where
  "todoist_rows w fs n i y_offset [] = []"
| "todoist_rows w fs n i y_offset (tk # tks) =
     (if i \<ge> MAX_TASKS then []
      else todoist_row w fs n i y_offset tk @ todoist_rows w fs n (Suc i) (y_offset + 36) tks)"

text \<open>The message of the empty board; its last character is U+2728.\<close>

definition all_done :: pystr where
  "all_done = str ''All done for today! '' @ [0x2728]"

definition todoist_render :: "world \<Rightarrow> task_info list \<Rightarrow> image" where
  "todoist_render w tasks =
     (let fs = todoist_load_fonts w;
          msg_y = IMAGE_HEIGHT div 2 - 10
      in \<lparr>im_size = (IMAGE_WIDTH, IMAGE_HEIGHT), im_bg = todoist_BG_COLOR,
          im_ops = todoist_header fs tasks @ todoist_rows w fs (length tasks) 0 58 tasks
                   @ (if length tasks = 0
                      then [Text (IMAGE_WIDTH div 2 - 70, msg_y) all_done todoist_ACCENT_COLOR (task_font fs)]
                      else [])\<rparr>)"

definition todoist_create_display_image ::
  "world \<Rightarrow> task_info list \<Rightarrow> pystr \<Rightarrow> pystr \<times> world" where
  "todoist_create_display_image w tasks output_path =
     (output_path, save w output_path (todoist_render w tasks))"



section \<open>The uploader: \<open>upload.py\<close>\<close>

definition IMAGE_FILE :: pystr where
  "IMAGE_FILE = str ''departures.jpg''"

text \<open>\<open>os.path.exists\<close>, \<open>os.path.basename\<close> and \<open>open(path, 'rb')\<close>.\<close>

definition os_path_exists :: "world \<Rightarrow> pystr \<Rightarrow> bool" where
  "os_path_exists w path = (files w path \<noteq> None)"

definition basename :: "pystr \<Rightarrow> pystr" where
  "basename path = rev (takeWhile (\<lambda>c. c \<noteq> 47) (rev path))"

definition open_rb :: "world \<Rightarrow> pystr \<Rightarrow> error + file_data" where
  "open_rb w path =
     (case files w path of
        None \<Rightarrow> Inl OSError
      | Some Directory \<Rightarrow> Inl OSError
      | Some f \<Rightarrow> Inr f)"

text \<open>\<open>f"{value}"\<close> of an environment variable that may be unset.\<close>

definition format_env :: "pystr option \<Rightarrow> pystr" where
  "format_env v = (case v of None \<Rightarrow> str ''None'' | Some s \<Rightarrow> s)"

text \<open>
  \<open>upload_image(image_path)\<close>: what it returns (\<open>Inl\<close> for an exception that leaves
  it) and the requests it sent. \<open>raise_for_status\<close> raises on a status from 400 to
  599; that exception, and any the request itself raises, is caught.
\<close>

definition upload_image :: "world \<Rightarrow> pystr \<Rightarrow> (error + bool) \<times> http_request list" where
  "upload_image w image_path =
     (if \<not> os_path_exists w image_path then (Inr False, [])
      else
        (let u = format_env (env_DEVICE_URL w) @ str ''?dir=''
                   @ get_default (env_UPLOAD_DIR w) (str ''/image/'')
         in case open_rb w image_path of
              Inl e \<Rightarrow> (Inl e, [])
            | Inr f \<Rightarrow>
                (let req = \<lparr>url = u, file_name = basename image_path, file_body = f,
                            content_type = str ''image/jpeg'', timeout = 10\<rparr>
                 in case post w req of
                      RequestException \<Rightarrow> (Inr False, [req])
                    | Response status body \<Rightarrow>
                        if 400 \<le> status \<and> status < 600 then (Inr False, [req])
                        else (Inr True, [req]))))"

text \<open>
  \<open>main()\<close> with \<open>sys.argv\<close>: the exit status of the process and the requests sent.
  An exception that nothing catches ends the process with status 1.
\<close>

definition upload_main :: "world \<Rightarrow> pystr list \<Rightarrow> int \<times> http_request list" where
  "upload_main w argv =
     (let image_path = (if length argv > 1 then argv ! 1 else IMAGE_FILE)
      in case upload_image w image_path of
           (Inl e, reqs) \<Rightarrow> (1, reqs)
         | (Inr success, reqs) \<Rightarrow> (if success then 0 else 1, reqs))"

section \<open>Notions used in the statements\<close>

text \<open>The two tests of the loop body: a live list or a timetable that is not empty.\<close>

definition has_departure_data :: "service \<Rightarrow> bool" where
  "has_departure_data sv =
     (present (s_live_departures_seconds sv) \<or> present (s_next_departures sv))"


text \<open>The image a path holds, if it holds one, and the texts an image shows, in order.\<close>

definition saved_image :: "world \<Rightarrow> pystr \<Rightarrow> image option" where
  "saved_image w path = (case files w path of Some (JpegFile img q) \<Rightarrow> Some img | _ \<Rightarrow> None)"

fun drawn_texts :: "draw_op list \<Rightarrow> pystr list" where
  "drawn_texts [] = []"
| "drawn_texts (Text xy t fill fnt # ops) = t # drawn_texts ops"
| "drawn_texts (_ # ops) = drawn_texts ops"


section \<open>Example inputs\<close>

text \<open>
  A reading of the UTC clock, and a stop with three services: one with a timetable only,
  one with an empty live list and no timetable, one with a live countdown.
\<close>

definition example_now :: datetime where
  "example_now = \<lparr>year = 2024, month = 1, day = 1, hour = 8, minute = 0, second = 0,
                   microsecond = 0, utcoffset = None\<rparr>"

definition scheduled_service :: service where
  "scheduled_service =
     \<lparr>s_route_id = Some (str ''175''), s_headsign = None, s_live_departures_seconds = None,
      s_next_departures =
        Some [str ''2024-01-01T08:15:00+00:00'', str ''2024-01-01T08:30:00+00:00'']\<rparr>"

definition live_service :: service where
  "live_service =
     \<lparr>s_route_id = Some (str ''128''), s_headsign = Some (str ''Centrum''),
      s_live_departures_seconds = Some [90], s_next_departures = None\<rparr>"

definition silent_service :: service where
  "silent_service =
     \<lparr>s_route_id = Some (str ''N01''), s_headsign = Some (str ''Depot''),
      s_live_departures_seconds = Some [], s_next_departures = None\<rparr>"

definition example_routes :: "route list" where
  "example_routes =
     [\<lparr>r_id = Some (str ''128''), r_name = Some (str ''128''),
       r_color = Some (str ''#FF0000''), r_text_color = None\<rparr>]"

definition example_stop :: stop where
  "example_stop =
     \<lparr>st_services = Some [scheduled_service, silent_service, live_service],
      st_routes = Some example_routes\<rparr>"

definition example_payload :: payload where
  "example_payload = \<lparr>stops = Some [example_stop]\<rparr>"

definition scheduled_row :: departure where
  "scheduled_row =
     \<lparr>route_name = str ''???'', headsign = [], color = str ''#888888'',
      text_color = str ''#FFFFFF'', time_text = str ''08:15'', is_live = False,
      dep_sort_key = 900, additional_times = Some (PyStr (str ''08:30''))\<rparr>"

definition live_row :: departure where
  "live_row =
     \<lparr>route_name = str ''128'', headsign = str ''Centrum'', color = str ''#FF0000'',
      text_color = str ''#FFFFFF'', time_text = str ''1 min'', is_live = True,
      dep_sort_key = 90, additional_times = None\<rparr>"


text \<open>A stop whose only service is the one with a timetable, and no routes.\<close>

definition scheduled_payload :: payload where
  "scheduled_payload =
     \<lparr>stops = Some [\<lparr>st_services = Some [scheduled_service], st_routes = None\<rparr>]\<rparr>"

text \<open>
  A world at noon with no typeface file (the built-in font is used, six pixels a
  character), no environment variable set and a device that cannot be reached.
\<close>

definition example_world :: world where
  "example_world =
     \<lparr>clock = \<lparr>year = 2024, month = 1, day = 1, hour = 12, minute = 0, second = 0,
               microsecond = 0, utcoffset = None\<rparr>,
      files = Map.empty,
      default_bbox = (\<lambda>t. (0, 0, 6 * int (length t), 11)),
      env_DEVICE_URL = None,
      env_UPLOAD_DIR = None,
      post = (\<lambda>req. RequestException)\<rparr>"


text \<open>
  A completed list with two entries, the first one without a \<open>content\<close> key, and no
  active task.
\<close>

definition unnamed_completed :: tasks_data where
  "unnamed_completed =
     \<lparr>td_active = Some [],
      td_completed =
        Some [Dict \<lparr>c_content = None, c_project_id = None, c_task_id = None\<rparr>,
              Dict \<lparr>c_content = Some (str ''Apple''), c_project_id = None, c_task_id = None\<rparr>]\<rparr>"


text \<open>A row with a destination of 17 characters, and a task with a text of 35.\<close>

definition long_departure :: departure where
  "long_departure =
     \<lparr>route_name = str ''175'', headsign = str ''Dworzec Centralny'', color = str ''#FF0000'',
      text_color = str ''#FFFFFF'', time_text = str ''3 min'', is_live = True,
      dep_sort_key = 200, additional_times = None\<rparr>"

definition long_task :: task_info where
  "long_task =
     \<lparr>content = str ''Prepare the quarterly budget report'', priority = 7, project_id = [],
      due = None, labels = [], completed = False, due_text = str ''Today'',
      task_sort_key = (0, - 2, str ''prepare the quarterly budget report'')\<rparr>"





text \<open>A world where the image is on disk and the device answers every request with 200.\<close>

definition upload_world :: world where
  "upload_world =
     example_world\<lparr>files := [str ''departures.jpg'' \<mapsto> OtherFile],
                   env_DEVICE_URL := Some (str ''http://192.168.1.50/doUpload''),
                   post := (\<lambda>req. Response 200 (str ''OK''))\<rparr>"

definition upload_request :: http_request where
  "upload_request =
     \<lparr>url = str ''http://192.168.1.50/doUpload?dir=/image/'', file_name = str ''departures.jpg'',
      file_body = OtherFile, content_type = str ''image/jpeg'', timeout = 10\<rparr>"


section \<open>The departures parser: properties\<close>

lemma iso_0815:
  "fromisoformat (str ''2024-01-01T08:15:00+00:00'') =
     Inr \<lparr>year = 2024, month = 1, day = 1, hour = 8, minute = 15, second = 0,
          microsecond = 0, utcoffset = Some 0\<rparr>"
  by (simp add: fromisoformat_def sanitize_isoformat_str_def is_surrogate_def utf8_def
      utf8_char_def find_isoformat_datetime_separator_def byte_at_def parse_isoformat_date_def
      parse_digits_def is_digit_def parse_isoformat_time_def parse_hh_mm_ss_ff_def
      tzinfo_offset_def days_in_month_def is_leap_def str_def Let_def numeral_3_eq_3)

lemma iso_0830:
  "fromisoformat (str ''2024-01-01T08:30:00+00:00'') =
     Inr \<lparr>year = 2024, month = 1, day = 1, hour = 8, minute = 30, second = 0,
          microsecond = 0, utcoffset = Some 0\<rparr>"
  by (simp add: fromisoformat_def sanitize_isoformat_str_def is_surrogate_def utf8_def
      utf8_char_def find_isoformat_datetime_separator_def byte_at_def parse_isoformat_date_def
      parse_digits_def is_digit_def parse_isoformat_time_def parse_hh_mm_ss_ff_def
      tzinfo_offset_def days_in_month_def is_leap_def str_def Let_def numeral_3_eq_3)

lemma fifteen_minutes: "true_divide 900000000 1000000 = 900"
proof -
  have "bit_length 900000000 = 30" and "bit_length 1000000 = 20"
    by (simp_all add: bit_length.simps)
  then show ?thesis
    by (simp add: true_divide_def round_half_even_def scale2_def Let_def)
qed


lemma present_Cons: "present (Some (x # xs))"
  by (simp add: present_def)


lemma parse_service_no_data:
  assumes "\<not> has_departure_data sv" and "parse_service t routes sv = Inr row"
  shows "row = None"
  using assms
  by (auto simp: parse_service_def has_departure_data_def Let_def split: option.splits)


lemma parse_service_scheduled:
  assumes ps: "parse_service t routes sv = Inr (Some r)"
    and nl: "\<not> present (s_live_departures_seconds sv)"
    and nd: "s_next_departures sv = Some (first # rest)"
  shows "\<exists>next_dep ts. fromisoformat first = Inr next_dep
           \<and> format_times (take 2 rest) = Inr ts
           \<and> \<not> is_live r
           \<and> sub_total_seconds next_dep t = Inr (dep_sort_key r)
           \<and> time_text r = strftime_HM next_dep
           \<and> additional_times r = (if ts = [] then None else Some (PyStr (join (str '', '') ts)))"
proof -
  from ps obtain rid where rid: "s_route_id sv = Some rid"
    by (cases "s_route_id sv") (simp_all add: parse_service_def)
  from ps obtain next_dep where f: "fromisoformat first = Inr next_dep"
    by (cases "fromisoformat first") (simp_all add: parse_service_def rid nl present_Cons nd Let_def)
  from ps obtain ts where g: "format_times (take 2 rest) = Inr ts"
    by (cases "format_times (take 2 rest)") (simp_all add: parse_service_def rid nl present_Cons nd f Let_def)
  from ps obtain secs where s: "sub_total_seconds next_dep t = Inr secs"
    by (cases "sub_total_seconds next_dep t")
      (simp_all add: parse_service_def rid nl present_Cons nd f g Let_def)
  from ps have "\<not> is_live r \<and> dep_sort_key r = secs \<and> time_text r = strftime_HM next_dep
      \<and> additional_times r = (if ts = [] then None else Some (PyStr (join (str '', '') ts)))"
    by (auto simp add: parse_service_def rid nl present_Cons nd f g s Let_def)
  with f g s show ?thesis by blast
qed



lemma build_example_routes:
  "build_routes Map.empty example_routes = Inr [str ''128'' \<mapsto> hd example_routes]"
  by (simp add: example_routes_def)

lemma parse_scheduled_service:
  "rts (str ''175'') = None \<Longrightarrow>
   parse_service (now_utc example_now) rts scheduled_service = Inr (Some scheduled_row)"
  apply (simp add: parse_service_def scheduled_service_def present_def
      get_default_def iso_0815 iso_0830 Let_def strftime_HM_def two_digits_def
      sub_total_seconds_def example_now_def now_utc_def base_microseconds_def toordinal_def
      ymd_to_ord_def seconds_of_day_def days_before_year_def days_before_month_def is_leap_def
      fifteen_minutes)
  apply (simp add: scheduled_row_def str_def)
  done

lemma parse_live_service:
  "parse_service (now_utc example_now) [str ''128'' \<mapsto> hd example_routes] live_service =
     Inr (Some live_row)"
  by (simp add: parse_service_def live_service_def live_row_def present_def
      get_default_def Let_def example_routes_def str_int_def digits.simps str_def)

lemma parse_silent_service:
  "parse_service t rts silent_service = Inr None"
  by (simp add: parse_service_def silent_service_def present_def get_default_def Let_def)

lemma parse_example_payload:
  "parse_departures example_now (Some example_payload) = Inr [live_row, scheduled_row]"
proof -
  have "[str ''128'' \<mapsto> hd example_routes] (str ''175'') = None"
    by (simp add: str_def)
  then show ?thesis
    by (simp add: parse_departures_def example_payload_def example_stop_def get_default_def
        build_example_routes parse_scheduled_service parse_live_service parse_silent_service
        MAX_BUSES_def live_row_def scheduled_row_def)
qed



lemma parse_services_filter:
  "parse_services t routes svs = Inr rows \<Longrightarrow>
   parse_services t routes (filter has_departure_data svs) = Inr rows"
proof (induction svs arbitrary: rows)
  case Nil
  then show ?case by simp
next
  case (Cons sv svs)
  from Cons.prems obtain row rest where
    row: "parse_service t routes sv = Inr row" and
    rest: "parse_services t routes svs = Inr rest" and
    rows: "rows = (case row of None \<Rightarrow> rest | Some r \<Rightarrow> r # rest)"
    by (auto split: sum.splits)
  have ih: "parse_services t routes (filter has_departure_data svs) = Inr rest"
    by (rule Cons.IH [OF rest])
  show ?case
  proof (cases "has_departure_data sv")
    case True
    then show ?thesis by (simp add: row ih rows)
  next
    case False
    from False row have "row = None" by (rule parse_service_no_data)
    with False show ?thesis by (simp add: ih rows)
  qed
qed

text \<open>
  C6. \<open>parse_departures\<close> returns the empty list, and raises nothing, when the
  payload is missing, has no \<open>stops\<close> key or has an empty \<open>stops\<close> list. A service
  with neither a live list nor a timetable that is not empty gives no row: the loop
  body returns nothing for it, and taking such services out of the payload leaves the
  result as it was.
\<close>

theorem empty_payloads_and_silent_services:
  "parse_departures c None = Inr []
   \<and> parse_departures c (Some \<lparr>stops = None\<rparr>) = Inr []
   \<and> parse_departures c (Some \<lparr>stops = Some []\<rparr>) = Inr []
   \<and> (\<not> has_departure_data sv \<and> parse_service t routes sv = Inr row \<longrightarrow> row = None)
   \<and> (stops d = Some (stp # others) \<and> parse_departures c (Some d) = Inr rows \<longrightarrow>
        parse_departures c
          (Some (d\<lparr>stops := Some (stp\<lparr>st_services :=
                      Some (filter has_departure_data (get_default (st_services stp) []))\<rparr> # others)\<rparr>))
        = Inr rows)"
proof -
  have a: "parse_departures c None = Inr []"
    by (simp add: parse_departures_def)
  have b: "parse_departures c (Some \<lparr>stops = None\<rparr>) = Inr []"
    by (simp add: parse_departures_def)
  have e: "parse_departures c (Some \<lparr>stops = Some []\<rparr>) = Inr []"
    by (simp add: parse_departures_def)
  have f: "\<not> has_departure_data sv \<and> parse_service t routes sv = Inr row \<longrightarrow> row = None"
    using parse_service_no_data by blast
  have g: "parse_departures c
          (Some (d\<lparr>stops := Some (stp\<lparr>st_services :=
                      Some (filter has_departure_data (get_default (st_services stp) []))\<rparr> # others)\<rparr>))
        = Inr rows"
    if st: "stops d = Some (stp # others)" and pd: "parse_departures c (Some d) = Inr rows"
  proof -
    from pd st obtain rts deps where
      rts: "build_routes Map.empty (get_default (st_routes stp) []) = Inr rts" and
      deps: "parse_services (now_utc c) rts (get_default (st_services stp) []) = Inr deps" and
      rows: "rows = take MAX_BUSES (sort_key dep_sort_key deps)"
      by (auto simp: parse_departures_def split: sum.splits)
    from parse_services_filter [OF deps] rts rows show ?thesis
      by (simp add: parse_departures_def get_default_def)
  qed
  from a b e f g show ?thesis by blast
qed

lemma silent_has_no_data: "\<not> has_departure_data silent_service"
  by (simp add: has_departure_data_def silent_service_def present_def)

lemma filter_example_services:
  "filter has_departure_data [scheduled_service, silent_service, live_service] =
     [scheduled_service, live_service]"
  by (simp add: has_departure_data_def silent_service_def scheduled_service_def
      live_service_def present_def)

theorem empty_payloads_and_silent_services_witness:
  "\<not> has_departure_data silent_service
   \<and> parse_service (now_utc example_now) Map.empty silent_service = Inr None
   \<and> stops example_payload = Some (example_stop # [])
   \<and> parse_departures example_now (Some example_payload) = Inr [live_row, scheduled_row]
   \<and> parse_departures example_now
        (Some (example_payload\<lparr>stops :=
           Some (example_stop\<lparr>st_services := Some [scheduled_service, live_service]\<rparr> # [])\<rparr>))
       = Inr [live_row, scheduled_row]"
proof -
  have st: "stops example_payload = Some (example_stop # [])"
    by (simp add: example_payload_def)
  have sv: "get_default (st_services example_stop) [] =
              [scheduled_service, silent_service, live_service]"
    by (simp add: example_stop_def get_default_def)
  note inst = empty_payloads_and_silent_services
    [where c = example_now and d = example_payload and stp = example_stop and others = "[]"
       and rows = "[live_row, scheduled_row]" and sv = silent_service
       and t = "now_utc example_now" and routes = Map.empty and row = None,
       unfolded sv filter_example_services]
  from inst st parse_example_payload silent_has_no_data parse_silent_service
  show ?thesis
    by simp
qed

lemma parse_service_headsign:
  "parse_service t routes sv = Inr (Some r) \<Longrightarrow> headsign r = get_default (s_headsign sv) []"
  by (auto simp: parse_service_def Let_def str_def split: option.splits if_splits sum.splits)

lemma parse_service_route_name:
  "parse_service t routes sv = Inr (Some r) \<Longrightarrow> s_route_id sv = Some rid \<Longrightarrow>
   route_name r = (case routes rid of None \<Rightarrow> str ''???''
                   | Some rt \<Rightarrow> get_default (r_name rt) (str ''???''))"
  by (auto simp: parse_service_def Let_def split: option.splits if_splits sum.splits)

lemma parse_services_headsign:
  "parse_services t routes svs = Inr rows \<Longrightarrow> r \<in> set rows \<Longrightarrow>
   \<exists>sv \<in> set svs. headsign r = get_default (s_headsign sv) []"
proof (induction svs arbitrary: rows)
  case Nil
  then show ?case by simp
next
  case (Cons sv svs)
  from Cons.prems(1) obtain row rest where
    row: "parse_service t routes sv = Inr row" and
    rest: "parse_services t routes svs = Inr rest" and
    rows: "rows = (case row of None \<Rightarrow> rest | Some r \<Rightarrow> r # rest)"
    by (auto split: sum.splits)
  from Cons.prems(2) rows have "row = Some r \<or> r \<in> set rest"
    by (cases row) auto
  then show ?case
  proof
    assume "row = Some r"
    with row have "headsign r = get_default (s_headsign sv) []"
      by (simp add: parse_service_headsign)
    then show ?thesis by simp
  next
    assume "r \<in> set rest"
    with Cons.IH [OF rest] show ?thesis by simp
  qed
qed

lemma cm_row_destination:
  "Text (80, y_offset + 9)
     (if length (headsign dep) > 11 then take 10 (headsign dep) @ str ''.'' else headsign dep)
     (str ''#CCCCCC'') (dest_font fs) \<in> set (cm_row w fs i y_offset dep)"
  by (simp add: cm_row_def Let_def)

text \<open>
  C9. A service without a \<open>headsign\<close> gets the empty string as destination, and
  the renderer draws that empty string in the destination cell. The placeholder
  \<open>???\<close> stands in for a route name only: it is the name of a row whose route is
  unknown or has no name. If no service of the stop has a headsign, every row returned
  has the empty destination.
\<close>

theorem missing_headsign_is_empty:
  "(s_headsign sv = None \<and> parse_service t routes sv = Inr (Some r) \<longrightarrow>
      headsign r = []
      \<and> Text (80, y_offset + 9) [] (str ''#CCCCCC'') (dest_font fs) \<in> set (cm_row w fs i y_offset r))
   \<and> (s_route_id sv = Some rid \<and> parse_service t routes sv = Inr (Some r) \<longrightarrow>
        route_name r = (case routes rid of None \<Rightarrow> str ''???''
                        | Some rt \<Rightarrow> get_default (r_name rt) (str ''???'')))
   \<and> (stops d = Some (stp # others) \<and> parse_departures c (Some d) = Inr rows
        \<and> (\<forall>s \<in> set (get_default (st_services stp) []). s_headsign s = None) \<longrightarrow>
        (\<forall>row \<in> set rows. headsign row = []))"
proof -
  have a: "headsign r = []
      \<and> Text (80, y_offset + 9) [] (str ''#CCCCCC'') (dest_font fs) \<in> set (cm_row w fs i y_offset r)"
    if "s_headsign sv = None" and "parse_service t routes sv = Inr (Some r)"
  proof -
    from that have h: "headsign r = []"
      by (simp add: parse_service_headsign get_default_def)
    from cm_row_destination [of y_offset r fs w i] h show ?thesis by simp
  qed
  have b: "route_name r = (case routes rid of None \<Rightarrow> str ''???''
                        | Some rt \<Rightarrow> get_default (r_name rt) (str ''???''))"
    if "s_route_id sv = Some rid" and "parse_service t routes sv = Inr (Some r)"
    using that by (simp add: parse_service_route_name)
  have e: "\<forall>row \<in> set rows. headsign row = []"
    if st: "stops d = Some (stp # others)" and pd: "parse_departures c (Some d) = Inr rows"
      and no: "\<forall>s \<in> set (get_default (st_services stp) []). s_headsign s = None"
  proof
    fix row assume rin: "row \<in> set rows"
    from pd st obtain rts deps where
      deps: "parse_services (now_utc c) rts (get_default (st_services stp) []) = Inr deps" and
      rows: "rows = take MAX_BUSES (sort_key dep_sort_key deps)"
      by (auto simp: parse_departures_def split: sum.splits)
    from rin rows have "row \<in> set deps"
      by (auto dest: in_set_takeD)
    from parse_services_headsign [OF deps this] no show "headsign row = []"
      by (auto simp: get_default_def)
  qed
  from a b e show ?thesis by blast
qed

lemma parse_scheduled_payload:
  "parse_departures example_now (Some scheduled_payload) = Inr [scheduled_row]"
  by (simp add: parse_departures_def scheduled_payload_def get_default_def
      parse_scheduled_service MAX_BUSES_def)

lemma example_world_fonts:
  "cm_load_fonts example_world =
     \<lparr>header_font = Load_default, route_font = Load_default, dest_font = Load_default,
      cm_time_font = Load_default, small_font = Load_default, next_time_font = Load_default\<rparr>"
  by (simp add: cm_load_fonts_def truetype_def example_world_def)

theorem missing_headsign_is_empty_witness:
  "s_headsign scheduled_service = None
   \<and> s_route_id scheduled_service = Some (str ''175'')
   \<and> parse_service (now_utc example_now) Map.empty scheduled_service = Inr (Some scheduled_row)
   \<and> headsign scheduled_row = []
   \<and> Text (80, 59) [] (str ''#CCCCCC'') Load_default
        \<in> set (cm_row example_world (cm_load_fonts example_world) 0 50 scheduled_row)
   \<and> route_name scheduled_row = str ''???''
   \<and> parse_departures example_now (Some scheduled_payload) = Inr [scheduled_row]"
proof -
  have sv: "s_headsign scheduled_service = None"
    "s_route_id scheduled_service = Some (str ''175'')"
    by (simp_all add: scheduled_service_def)
  have ps: "parse_service (now_utc example_now) Map.empty scheduled_service = Inr (Some scheduled_row)"
    by (simp add: parse_scheduled_service)
  have st: "stops scheduled_payload =
      Some (\<lparr>st_services = Some [scheduled_service], st_routes = None\<rparr> # [])"
    by (simp add: scheduled_payload_def)
  note inst = missing_headsign_is_empty
    [where sv = scheduled_service and t = "now_utc example_now" and routes = Map.empty
       and r = scheduled_row and y_offset = 50 and fs = "cm_load_fonts example_world"
       and w = example_world and i = 0 and rid = "str ''175''" and d = scheduled_payload
       and stp = "\<lparr>st_services = Some [scheduled_service], st_routes = None\<rparr>"
       and others = "[]" and c = example_now and rows = "[scheduled_row]"]
  from inst sv ps st parse_scheduled_payload show ?thesis
    by (simp add: example_world_fonts)
qed

lemma parse_service_0815_0830:
  assumes "s_route_id sv = Some rid"
    and "\<not> present (s_live_departures_seconds sv)"
    and "s_next_departures sv =
           Some [str ''2024-01-01T08:15:00+00:00'', str ''2024-01-01T08:30:00+00:00'']"
  shows "\<exists>r. parse_service (now_utc c) routes sv = Inr (Some r)"
  using assms
  by (simp add: parse_service_def Let_def present_Cons iso_0815 iso_0830 sub_total_seconds_def
      now_utc_def)

text \<open>
  C5, as the code has it. For a service with no live departures whose timetable is
  \<open>2024-01-01T08:15:00+00:00\<close>, \<open>2024-01-01T08:30:00+00:00\<close>, the row has
  \<open>time_text\<close> \<open>08:15\<close> and, under \<open>additional_times\<close>, the string \<open>08:30\<close>. In
  general the first timestamp gives \<open>time_text\<close> as \<open>HH:MM\<close>, and the timestamps at
  indices 1 and 2, each formatted as \<open>HH:MM\<close>, are joined with a comma and a space
  into one string; the key is absent when there is none.
\<close>

theorem scheduled_times_are_joined_text:
  "(s_route_id sv = Some rid \<and> \<not> present (s_live_departures_seconds sv)
     \<and> s_next_departures sv =
          Some [str ''2024-01-01T08:15:00+00:00'', str ''2024-01-01T08:30:00+00:00''] \<longrightarrow>
     (\<exists>r. parse_service (now_utc c) routes sv = Inr (Some r)
          \<and> time_text r = str ''08:15''
          \<and> additional_times r = Some (PyStr (str ''08:30''))))
   \<and> (parse_service t routes sv = Inr (Some r') \<and> \<not> present (s_live_departures_seconds sv)
        \<and> s_next_departures sv = Some (first # rest) \<longrightarrow>
        (\<exists>next_dep ts. fromisoformat first = Inr next_dep
           \<and> format_times (take 2 rest) = Inr ts
           \<and> time_text r' = strftime_HM next_dep
           \<and> additional_times r' =
               (if ts = [] then None else Some (PyStr (join (str '', '') ts)))))"
proof -
  have a: "\<exists>r. parse_service (now_utc c) routes sv = Inr (Some r)
          \<and> time_text r = str ''08:15''
          \<and> additional_times r = Some (PyStr (str ''08:30''))"
    if rid: "s_route_id sv = Some rid" and nl: "\<not> present (s_live_departures_seconds sv)"
      and nd: "s_next_departures sv =
          Some [str ''2024-01-01T08:15:00+00:00'', str ''2024-01-01T08:30:00+00:00'']"
  proof -
    from parse_service_0815_0830 [OF rid nl nd]
    obtain r where r: "parse_service (now_utc c) routes sv = Inr (Some r)" ..
    from parse_service_scheduled [OF r nl nd] obtain next_dep ts where
      f: "fromisoformat (str ''2024-01-01T08:15:00+00:00'') = Inr next_dep" and
      g: "format_times (take 2 [str ''2024-01-01T08:30:00+00:00'']) = Inr ts" and
      tt: "time_text r = strftime_HM next_dep" and
      at: "additional_times r = (if ts = [] then None else Some (PyStr (join (str '', '') ts)))"
      by blast
    from f have "hour next_dep = 8 \<and> minute next_dep = 15"
      by (auto simp: iso_0815)
    with tt have t1: "time_text r = str ''08:15''"
      by (simp add: strftime_HM_def two_digits_def str_def)
    from g obtain dt where "ts = [strftime_HM dt]" and "hour dt = 8 \<and> minute dt = 30"
      by (auto simp: iso_0830)
    with at have "additional_times r = Some (PyStr (str ''08:30''))"
      by (simp add: strftime_HM_def two_digits_def str_def)
    with t1 have "time_text r = str ''08:15'' \<and> additional_times r = Some (PyStr (str ''08:30''))"
      by simp
    with r show ?thesis by blast
  qed
  have b: "\<exists>next_dep ts. fromisoformat first = Inr next_dep
           \<and> format_times (take 2 rest) = Inr ts
           \<and> time_text r' = strftime_HM next_dep
           \<and> additional_times r' =
               (if ts = [] then None else Some (PyStr (join (str '', '') ts)))"
    if "parse_service t routes sv = Inr (Some r')" and "\<not> present (s_live_departures_seconds sv)"
      and "s_next_departures sv = Some (first # rest)"
    using parse_service_scheduled [OF that] by blast
  from a b show ?thesis by blast
qed

text \<open>
  C5, as it is stated, fails: on the timetable of the claim the value under
  \<open>additional_times\<close> is the string \<open>08:30\<close>, not a sequence holding that string.
\<close>

theorem additional_times_counterexample:
  "parse_departures example_now (Some scheduled_payload) = Inr [scheduled_row]
   \<and> time_text scheduled_row = str ''08:15''
   \<and> additional_times scheduled_row = Some (PyStr (str ''08:30''))
   \<and> additional_times scheduled_row \<noteq> Some (PyList [str ''08:30''])"
  by (simp add: parse_scheduled_payload) (simp add: scheduled_row_def)

theorem scheduled_times_are_joined_text_witness:
  "s_route_id scheduled_service = Some (str ''175'')
   \<and> \<not> present (s_live_departures_seconds scheduled_service)
   \<and> s_next_departures scheduled_service =
        Some [str ''2024-01-01T08:15:00+00:00'', str ''2024-01-01T08:30:00+00:00'']
   \<and> parse_service (now_utc example_now) Map.empty scheduled_service = Inr (Some scheduled_row)
   \<and> (\<exists>r. parse_service (now_utc example_now) Map.empty scheduled_service = Inr (Some r)
          \<and> time_text r = str ''08:15''
          \<and> additional_times r = Some (PyStr (str ''08:30'')))
   \<and> (\<exists>next_dep ts.
          fromisoformat (str ''2024-01-01T08:15:00+00:00'') = Inr next_dep
          \<and> format_times (take 2 [str ''2024-01-01T08:30:00+00:00'']) = Inr ts
          \<and> time_text scheduled_row = strftime_HM next_dep
          \<and> additional_times scheduled_row =
               (if ts = [] then None else Some (PyStr (join (str '', '') ts))))"
proof -
  have sv: "s_route_id scheduled_service = Some (str ''175'')"
    "\<not> present (s_live_departures_seconds scheduled_service)"
    "s_next_departures scheduled_service =
        Some [str ''2024-01-01T08:15:00+00:00'', str ''2024-01-01T08:30:00+00:00'']"
    by (simp_all add: scheduled_service_def present_def)
  have ps: "parse_service (now_utc example_now) Map.empty scheduled_service = Inr (Some scheduled_row)"
    by (simp add: parse_scheduled_service)
  note inst = scheduled_times_are_joined_text
    [where sv = scheduled_service and rid = "str ''175''" and c = example_now
       and routes = Map.empty and t = "now_utc example_now" and r' = scheduled_row
       and first = "str ''2024-01-01T08:15:00+00:00''"
       and rest = "[str ''2024-01-01T08:30:00+00:00'']"]
  note c1 = inst [THEN conjunct1, rule_format, OF conjI [OF sv(1) conjI [OF sv(2) sv(3)]]]
  note c2 = inst [THEN conjunct2, rule_format, OF conjI [OF ps conjI [OF sv(2) sv(3)]]]
  show ?thesis
    using sv ps c1 c2 by (intro conjI)
qed

section \<open>The task parser: properties\<close>

lemma parse_tasks_length: "length (parse_tasks lower data) \<le> 6"
  by (simp add: parse_tasks_def MAX_TASKS_def split: option.splits)

lemma parse_tasks_sorted: "sorted (map task_sort_key (parse_tasks lower data))"
proof (cases data)
  case None
  then show ?thesis by (simp add: parse_tasks_def)
next
  case (Some d)
  have "sorted (take MAX_TASKS (map task_sort_key (sort_key task_sort_key
          (map (parse_active lower) (get_default (td_active d) [])
             @ parse_completed lower (get_default (td_completed d) [])))))"
    by (rule sorted_wrt_take) (rule sorted_sort_key)
  with Some show ?thesis by (simp add: parse_tasks_def take_map)
qed

lemma parse_completed_rows:
  "r \<in> set (parse_completed lower items) \<Longrightarrow> completed r \<and> fst (task_sort_key r) = 1"
  by (induction lower items rule: parse_completed.induct) auto

lemma parse_tasks_rows:
  assumes "r \<in> set (parse_tasks lower data)"
  shows "(\<not> completed r \<and> task_sort_key r = (0, 5 - priority r, lower (content r)))
         \<or> (completed r \<and> fst (task_sort_key r) = 1)"
proof (cases data)
  case None
  with assms show ?thesis by (simp add: parse_tasks_def)
next
  case (Some d)
  with assms have "r \<in> set (map (parse_active lower) (get_default (td_active d) []))
      \<or> r \<in> set (parse_completed lower (get_default (td_completed d) []))"
    by (auto simp: parse_tasks_def dest: in_set_takeD)
  then show ?thesis
  proof
    assume "r \<in> set (map (parse_active lower) (get_default (td_active d) []))"
    then show ?thesis by (auto simp: parse_active_def Let_def)
  next
    assume "r \<in> set (parse_completed lower (get_default (td_completed d) []))"
    then show ?thesis by (simp add: parse_completed_rows)
  qed
qed

text \<open>
  What holds of the order on every payload: a completed row is never followed by an
  active one, and of two active rows the earlier has the higher priority or, at the same
  priority, the text that is not greater once lowered.
\<close>

lemma parse_tasks_order:
  assumes ij: "i < j" and j: "j < length (parse_tasks lower data)"
  defines "a \<equiv> parse_tasks lower data ! i" and "b \<equiv> parse_tasks lower data ! j"
  shows "(completed a \<longrightarrow> completed b)
     \<and> (\<not> completed a \<and> \<not> completed b \<longrightarrow>
          priority b \<le> priority a
          \<and> (priority b = priority a \<longrightarrow> lower (content a) \<le> lower (content b)))"
proof -
  from ij j have i: "i < length (parse_tasks lower data)" by simp
  from parse_tasks_sorted [of lower data] ij j
  have le: "task_sort_key a \<le> task_sort_key b"
    by (simp add: sorted_iff_nth_mono a_def b_def)
  from i have ra: "(\<not> completed a \<and> task_sort_key a = (0, 5 - priority a, lower (content a)))
         \<or> (completed a \<and> fst (task_sort_key a) = 1)"
    unfolding a_def by (intro parse_tasks_rows [of _ lower data] nth_mem)
  from j have rb: "(\<not> completed b \<and> task_sort_key b = (0, 5 - priority b, lower (content b)))
         \<or> (completed b \<and> fst (task_sort_key b) = 1)"
    unfolding b_def by (intro parse_tasks_rows [of _ lower data] nth_mem)
  from le ra rb show ?thesis
    by (cases "task_sort_key a"; cases "task_sort_key b") (auto simp: less_eq_prod_def)
qed

lemma parse_completed_named:
  assumes "\<forall>it \<in> set items. \<forall>c. it = Dict c \<longrightarrow> c_content c \<noteq> None"
    and "r \<in> set (parse_completed lower items)"
  shows "task_sort_key r = (1, 0, lower (content r))"
  using assms
  by (induction lower items rule: parse_completed.induct) (auto simp: get_default_def)

text \<open>
  When every entry of the completed list has a \<open>content\<close>, the completed rows are
  ordered by their lowered text as well.
\<close>

lemma parse_tasks_completed_order:
  assumes named: "\<forall>it \<in> set (get_default (td_completed d) []). \<forall>c. it = Dict c \<longrightarrow> c_content c \<noteq> None"
    and ij: "i < j" and j: "j < length (parse_tasks lower (Some d))"
    and ca: "completed (parse_tasks lower (Some d) ! i)"
    and cb: "completed (parse_tasks lower (Some d) ! j)"
  shows "lower (content (parse_tasks lower (Some d) ! i))
           \<le> lower (content (parse_tasks lower (Some d) ! j))"
proof -
  let ?rows = "parse_tasks lower (Some d)"
  have key: "task_sort_key r = (1, 0, lower (content r))" if "r \<in> set ?rows" "completed r" for r
  proof -
    from that(1) have "r \<in> set (map (parse_active lower) (get_default (td_active d) []))
        \<or> r \<in> set (parse_completed lower (get_default (td_completed d) []))"
      by (auto simp: parse_tasks_def dest: in_set_takeD)
    then show ?thesis
    proof
      assume "r \<in> set (map (parse_active lower) (get_default (td_active d) []))"
      with that(2) show ?thesis by (auto simp: parse_active_def Let_def)
    next
      assume "r \<in> set (parse_completed lower (get_default (td_completed d) []))"
      with named show ?thesis by (rule parse_completed_named)
    qed
  qed
  from ij j have i: "i < length ?rows" by simp
  from parse_tasks_sorted [of lower "Some d"] ij j
  have "task_sort_key (?rows ! i) \<le> task_sort_key (?rows ! j)"
    by (simp add: sorted_iff_nth_mono)
  with key [OF nth_mem [OF i] ca] key [OF nth_mem [OF j] cb] show ?thesis
    by simp
qed

text \<open>
  C2 on a completed entry without \<open>content\<close>. The row shows the placeholder
  \<open>Untitled Task\<close>, but its sort key is built from the empty string, so it comes
  before the completed row \<open>Apple\<close>: the two completed rows are not in alphabetical
  order of their lowered text.
\<close>

theorem unnamed_completed_out_of_order:
  "map content (parse_tasks ascii_lower (Some unnamed_completed)) =
     [str ''Untitled Task'', str ''Apple'']
   \<and> map completed (parse_tasks ascii_lower (Some unnamed_completed)) = [True, True]
   \<and> \<not> sorted (map (\<lambda>t. ascii_lower (content t)) (parse_tasks ascii_lower (Some unnamed_completed)))"
  by (simp add: parse_tasks_def unnamed_completed_def get_default_def MAX_TASKS_def
      ascii_lower_def str_def)

section \<open>The renderers: properties\<close>

text \<open>Every row the loop reaches leaves its operations in the image.\<close>

lemma cm_rows_nth:
  "i < length deps \<Longrightarrow> k + i < MAX_BUSES \<Longrightarrow>
   set (cm_row w fs (k + i) (y + 47 * int i) (deps ! i)) \<subseteq> set (cm_rows w fs k y deps)"
proof (induction deps arbitrary: i k y)
  case Nil
  then show ?case by simp
next
  case (Cons dep deps)
  show ?case
  proof (cases i)
    case 0
    with Cons.prems show ?thesis by auto
  next
    case (Suc n)
    with Cons.prems have n: "n < length deps" and kn: "Suc k + n < MAX_BUSES" and k: "k < MAX_BUSES"
      by simp_all
    from Cons.IH [OF n kn, of "y + 47"] Suc k show ?thesis
      by (auto simp: algebra_simps)
  qed
qed

lemma todoist_rows_nth:
  "i < length tks \<Longrightarrow> k + i < MAX_TASKS \<Longrightarrow>
   set (todoist_row w fs n (k + i) (y + 36 * int i) (tks ! i)) \<subseteq> set (todoist_rows w fs n k y tks)"
proof (induction tks arbitrary: i k y)
  case Nil
  then show ?case by simp
next
  case (Cons tk tks)
  show ?case
  proof (cases i)
    case 0
    with Cons.prems show ?thesis by auto
  next
    case (Suc m)
    with Cons.prems have m: "m < length tks" and km: "Suc k + m < MAX_TASKS" and k: "k < MAX_TASKS"
      by simp_all
    from Cons.IH [OF m km, of "y + 36"] Suc k show ?thesis
      by (auto simp: algebra_simps)
  qed
qed

lemma cm_render_row:
  "i < length deps \<Longrightarrow> i < 4 \<Longrightarrow>
   set (cm_row w (cm_load_fonts w) i (50 + 47 * int i) (deps ! i)) \<subseteq> set (im_ops (cm_render w deps))"
  using cm_rows_nth [of i deps 0 w "cm_load_fonts w" 50]
  by (auto simp: cm_render_def Let_def MAX_BUSES_def)

lemma todoist_render_row:
  "i < length tks \<Longrightarrow> i < 6 \<Longrightarrow>
   set (todoist_row w (todoist_load_fonts w) (length tks) i (58 + 36 * int i) (tks ! i))
     \<subseteq> set (im_ops (todoist_render w tks))"
  using todoist_rows_nth [of i tks 0 w "todoist_load_fonts w" "length tks" 58]
  by (auto simp: todoist_render_def Let_def MAX_TASKS_def)

lemma todoist_row_content:
  "Text (38, y_offset + 2)
     (if length (content tk) > 26 then take 23 (content tk) @ str ''...'' else content tk)
     (if completed tk then COMPLETED_COLOR else todoist_TEXT_COLOR) (task_font fs)
     \<in> set (todoist_row w fs n i y_offset tk)"
  by (simp add: todoist_row_def Let_def)

text \<open>
  C4. A destination of more than 11 characters is drawn, in its row of the departures
  board, as its first 10 characters followed by a full stop; a task text of more than
  26 characters is drawn, in its row of the task board, as its first 23 characters
  followed by three full stops. The rows are those the loops reach: the first 4 and the
  first 6.
\<close>

theorem long_texts_are_cut:
  "(i < length deps \<and> i < 4 \<and> length (headsign (deps ! i)) > 11 \<longrightarrow>
      Text (80, 59 + 47 * int i) (take 10 (headsign (deps ! i)) @ str ''.'') (str ''#CCCCCC'')
        (dest_font (cm_load_fonts w)) \<in> set (im_ops (cm_render w deps)))
   \<and> (j < length tks \<and> j < 6 \<and> length (content (tks ! j)) > 26 \<longrightarrow>
        Text (38, 60 + 36 * int j) (take 23 (content (tks ! j)) @ str ''...'')
          (if completed (tks ! j) then COMPLETED_COLOR else todoist_TEXT_COLOR)
          (task_font (todoist_load_fonts w)) \<in> set (im_ops (todoist_render w tks)))"
proof -
  have a: "Text (80, 59 + 47 * int i) (take 10 (headsign (deps ! i)) @ str ''.'') (str ''#CCCCCC'')
        (dest_font (cm_load_fonts w)) \<in> set (im_ops (cm_render w deps))"
    if "i < length deps" and "i < 4" and "length (headsign (deps ! i)) > 11"
  proof -
    from cm_row_destination [of "50 + 47 * int i" "deps ! i" "cm_load_fonts w" w i] that(3)
    have "Text (80, 59 + 47 * int i) (take 10 (headsign (deps ! i)) @ str ''.'') (str ''#CCCCCC'')
        (dest_font (cm_load_fonts w))
        \<in> set (cm_row w (cm_load_fonts w) i (50 + 47 * int i) (deps ! i))"
      by simp
    with cm_render_row [OF that(1) that(2), of w] show ?thesis by blast
  qed
  have b: "Text (38, 60 + 36 * int j) (take 23 (content (tks ! j)) @ str ''...'')
          (if completed (tks ! j) then COMPLETED_COLOR else todoist_TEXT_COLOR)
          (task_font (todoist_load_fonts w)) \<in> set (im_ops (todoist_render w tks))"
    if "j < length tks" and "j < 6" and "length (content (tks ! j)) > 26"
  proof -
    from todoist_row_content [of "58 + 36 * int j" "tks ! j" "todoist_load_fonts w" w "length tks" j]
      that(3)
    have "Text (38, 60 + 36 * int j) (take 23 (content (tks ! j)) @ str ''...'')
          (if completed (tks ! j) then COMPLETED_COLOR else todoist_TEXT_COLOR)
          (task_font (todoist_load_fonts w))
        \<in> set (todoist_row w (todoist_load_fonts w) (length tks) j (58 + 36 * int j) (tks ! j))"
      by simp
    with todoist_render_row [OF that(1) that(2), of w] show ?thesis by blast
  qed
  from a b show ?thesis by blast
qed

lemma example_world_todoist_fonts:
  "todoist_load_fonts example_world =
     \<lparr>title_font = Load_default, task_font = Load_default, label_font = Load_default,
      todoist_time_font = Load_default\<rparr>"
  by (simp add: todoist_load_fonts_def truetype_def example_world_def)

theorem long_texts_are_cut_witness:
  "0 < length [long_departure] \<and> (0::nat) < 4 \<and> length (headsign long_departure) > 11
   \<and> Text (80, 59) (str ''Dworzec Ce.'') (str ''#CCCCCC'') Load_default
        \<in> set (im_ops (cm_render example_world [long_departure]))
   \<and> 0 < length [long_task] \<and> (0::nat) < 6 \<and> length (content long_task) > 26
   \<and> Text (38, 60) (str ''Prepare the quarterly b...'') todoist_TEXT_COLOR Load_default
        \<in> set (im_ops (todoist_render example_world [long_task]))"
proof -
  have d: "length (headsign long_departure) > 11"
    "take 10 (headsign long_departure) @ str ''.'' = str ''Dworzec Ce.''"
    by (simp_all add: long_departure_def str_def)
  have t: "length (content long_task) > 26"
    "take 23 (content long_task) @ str ''...'' = str ''Prepare the quarterly b...''"
    "\<not> completed long_task"
    by (simp_all add: long_task_def str_def)
  note inst = long_texts_are_cut
    [where i = 0 and deps = "[long_departure]" and w = example_world and j = 0
       and tks = "[long_task]"]
  from inst d t show ?thesis
    by (simp add: example_world_fonts example_world_todoist_fonts)
qed

lemma todoist_row_checkbox:
  "\<not> completed tk \<Longrightarrow>
   Ellipse (12, y_offset + 2) (28, y_offset + 18) None
     (Some (get_default (PRIORITY_COLORS (priority tk)) (str ''#808080''))) 2
     \<in> set (todoist_row w fs n i y_offset tk)"
  by (simp add: todoist_row_def Let_def)

lemma unknown_priority_color:
  "p \<notin> {1, 2, 3, 4} \<Longrightarrow> get_default (PRIORITY_COLORS p) (str ''#808080'') = str ''#808080''"
  by (simp add: PRIORITY_COLORS_def get_default_def)

text \<open>
  C10. An active task whose priority is none of 1, 2, 3, 4 still gets its row on the
  task board: its checkbox is the outline of width 2 in \<open>#808080\<close>, the colour the
  lookup falls back on, and its text is drawn beside it.
\<close>

theorem unknown_priority_is_gray:
  assumes "i < length tks" and "i < 6" and "\<not> completed (tks ! i)"
    and "priority (tks ! i) \<notin> {1, 2, 3, 4}"
  shows "Ellipse (12, 60 + 36 * int i) (28, 76 + 36 * int i) None (Some (str ''#808080'')) 2
           \<in> set (im_ops (todoist_render w tks))
         \<and> Text (38, 60 + 36 * int i)
             (if length (content (tks ! i)) > 26 then take 23 (content (tks ! i)) @ str ''...''
              else content (tks ! i))
             todoist_TEXT_COLOR (task_font (todoist_load_fonts w))
           \<in> set (im_ops (todoist_render w tks))"
proof -
  let ?row = "todoist_row w (todoist_load_fonts w) (length tks) i (58 + 36 * int i) (tks ! i)"
  from todoist_row_checkbox [OF assms(3), of "58 + 36 * int i" w "todoist_load_fonts w" "length tks" i]
    unknown_priority_color [OF assms(4)]
  have e: "Ellipse (12, 60 + 36 * int i) (28, 76 + 36 * int i) None (Some (str ''#808080'')) 2
      \<in> set ?row"
    by simp
  from todoist_row_content [of "58 + 36 * int i" "tks ! i" "todoist_load_fonts w" w "length tks" i]
    assms(3)
  have t: "Text (38, 60 + 36 * int i)
             (if length (content (tks ! i)) > 26 then take 23 (content (tks ! i)) @ str ''...''
              else content (tks ! i))
             todoist_TEXT_COLOR (task_font (todoist_load_fonts w)) \<in> set ?row"
    by simp
  from e t todoist_render_row [OF assms(1) assms(2), of w] show ?thesis by blast
qed

theorem unknown_priority_is_gray_witness:
  "0 < length [long_task] \<and> (0::nat) < 6 \<and> \<not> completed ([long_task] ! 0)
   \<and> priority ([long_task] ! 0) \<notin> {1, 2, 3, 4}
   \<and> Ellipse (12, 60) (28, 76) None (Some (str ''#808080'')) 2
        \<in> set (im_ops (todoist_render example_world [long_task]))"
proof -
  have h: "0 < length [long_task]" "(0::nat) < 6" "\<not> completed ([long_task] ! 0)"
    "priority ([long_task] ! 0) \<notin> {1, 2, 3, 4}"
    by (simp_all add: long_task_def)
  from unknown_priority_is_gray [OF h, of example_world] h show ?thesis
    by simp
qed

lemma saved_after_cm:
  "saved_image (snd (cm_create_display_image w deps path)) path = Some (cm_render w deps)"
  by (simp add: cm_create_display_image_def save_def saved_image_def)

lemma saved_after_todoist:
  "saved_image (snd (todoist_create_display_image w tks path)) path = Some (todoist_render w tks)"
  by (simp add: todoist_create_display_image_def save_def saved_image_def)

text \<open>
  C3, as the code has it. Given no rows, the task renderer saves an image of 240 by 240
  that shows the message \<open>All done for today!\<close> (with U+2728) at (50, 110) in the
  accent colour. Given no rows, the departures renderer saves an image of 240 by 240 too,
  and raises nothing, but the only texts on it are the title, the clock and the three
  column captions: it has no message for the empty board.
\<close>

theorem empty_boards:
  "saved_image (snd (todoist_create_display_image w [] path)) path = Some (todoist_render w [])
   \<and> im_size (todoist_render w []) = (240, 240)
   \<and> Text (50, 110) all_done todoist_ACCENT_COLOR (task_font (todoist_load_fonts w))
        \<in> set (im_ops (todoist_render w []))
   \<and> saved_image (snd (cm_create_display_image w [] path)) path = Some (cm_render w [])
   \<and> im_size (cm_render w []) = (240, 240)
   \<and> drawn_texts (im_ops (cm_render w [])) =
        [str ''DEPARTURES'', strftime_HM (clock w), str ''LINE'', str ''DESTINATION'', str ''TIME'']"
  by (simp add: saved_after_cm saved_after_todoist todoist_render_def cm_render_def Let_def
      IMAGE_WIDTH_def IMAGE_HEIGHT_def todoist_header_def cm_header_def)

lemma example_world_clock: "strftime_HM (clock example_world) = str ''12:00''"
  by (simp add: example_world_def strftime_HM_def two_digits_def str_def)

lemma example_world_bbox: "default_bbox example_world t = (0, 0, 6 * int (length t), 11)"
  by (simp add: example_world_def)

text \<open>
  C3, as it is stated, fails for the departures renderer: this is the whole image it
  saves for the empty list at noon, with the built-in font. The header band, the title,
  the clock, the captions and two lines are on it, and nothing that says there are no
  departures.
\<close>

theorem empty_departures_board_counterexample:
  "saved_image (snd (cm_create_display_image example_world [] departures_jpg)) departures_jpg =
     Some \<lparr>im_size = (240, 240), im_bg = str ''#000000'',
           im_ops =
             [Rectangle (0, 0) (240, 28) (str ''#1a1a1a''),
              Text (8, 6) (str ''DEPARTURES'') (str ''#FFFFFF'') Load_default,
              Text (202, 6) (str ''12:00'') (str ''#888888'') Load_default,
              Line (0, 28) (240, 28) (str ''#2a2a2a'') 2,
              Text (8, 32) (str ''LINE'') (str ''#888888'') Load_default,
              Text (65, 32) (str ''DESTINATION'') (str ''#888888'') Load_default,
              Text (185, 32) (str ''TIME'') (str ''#888888'') Load_default,
              Line (0, 45) (240, 45) (str ''#2a2a2a'') 1]\<rparr>"
  by (simp add: saved_after_cm cm_render_def Let_def cm_header_def example_world_fonts
      IMAGE_WIDTH_def IMAGE_HEIGHT_def cm_BG_COLOR_def HEADER_COLOR_def cm_TEXT_COLOR_def
      GRID_COLOR_def textbbox_def bbox0_def bbox2_def example_world_clock example_world_bbox)
    (simp add: str_def)














section \<open>The uploader: properties\<close>

text \<open>The request \<open>upload_image\<close> builds for a path and the file it opened.\<close>

lemma upload_image_sends:
  assumes "os_path_exists w path" and "open_rb w path = Inr f"
  shows "upload_image w path =
     (let req = \<lparr>url = format_env (env_DEVICE_URL w) @ str ''?dir=''
                       @ get_default (env_UPLOAD_DIR w) (str ''/image/''),
                 file_name = basename path, file_body = f,
                 content_type = str ''image/jpeg'', timeout = 10\<rparr>
      in case post w req of
           RequestException \<Rightarrow> (Inr False, [req])
         | Response status body \<Rightarrow>
             if 400 \<le> status \<and> status < 600 then (Inr False, [req]) else (Inr True, [req]))"
  using assms by (simp add: upload_image_def Let_def)

text \<open>
  C7. For a path at which nothing exists, \<open>upload_image\<close> returns \<open>False\<close> and has
  sent no request. When the file can be opened and the device answers the request with
  a status outside 400 to 599, it returns \<open>True\<close>, having sent that one request. The
  process ends with status 0 exactly when \<open>upload_image\<close> returned \<open>True\<close>, and
  \<open>True\<close> is returned only after a request that the device answered so.
\<close>

theorem upload_reports_success:
  "(\<not> os_path_exists w path \<longrightarrow> upload_image w path = (Inr False, []))
   \<and> (os_path_exists w path \<and> open_rb w path = Inr f
        \<and> req = \<lparr>url = format_env (env_DEVICE_URL w) @ str ''?dir=''
                        @ get_default (env_UPLOAD_DIR w) (str ''/image/''),
                  file_name = basename path, file_body = f,
                  content_type = str ''image/jpeg'', timeout = 10\<rparr>
        \<and> post w req = Response status body \<and> \<not> (400 \<le> status \<and> status < 600) \<longrightarrow>
        upload_image w path = (Inr True, [req]))
   \<and> (fst (upload_main w argv) = 0 \<longleftrightarrow>
        fst (upload_image w (if length argv > 1 then argv ! 1 else IMAGE_FILE)) = Inr True)
   \<and> (fst (upload_image w path) = Inr True \<longrightarrow>
        (\<exists>rq status body. snd (upload_image w path) = [rq] \<and> post w rq = Response status body
           \<and> \<not> (400 \<le> status \<and> status < 600)))"
proof -
  have a: "upload_image w path = (Inr False, [])" if "\<not> os_path_exists w path"
    using that by (simp add: upload_image_def)
  have b: "upload_image w path = (Inr True, [req])"
    if "os_path_exists w path" and "open_rb w path = Inr f"
      and "req = \<lparr>url = format_env (env_DEVICE_URL w) @ str ''?dir=''
                        @ get_default (env_UPLOAD_DIR w) (str ''/image/''),
                  file_name = basename path, file_body = f,
                  content_type = str ''image/jpeg'', timeout = 10\<rparr>"
      and "post w req = Response status body" and "\<not> (400 \<le> status \<and> status < 600)"
    using that upload_image_sends [OF that(1) that(2)] by (simp add: Let_def)
  have c: "fst (upload_main w argv) = 0 \<longleftrightarrow>
        fst (upload_image w (if length argv > 1 then argv ! 1 else IMAGE_FILE)) = Inr True"
    by (auto simp: upload_main_def Let_def split: prod.splits sum.splits)
  have d: "\<exists>rq status body. snd (upload_image w path) = [rq] \<and> post w rq = Response status body
           \<and> \<not> (400 \<le> status \<and> status < 600)"
    if t: "fst (upload_image w path) = Inr True"
  proof -
    from t have ex: "os_path_exists w path"
      by (auto simp: upload_image_def split: if_splits)
    from t ex obtain f where f: "open_rb w path = Inr f"
      by (cases "open_rb w path") (auto simp: upload_image_def Let_def)
    from t upload_image_sends [OF ex f] show ?thesis
      by (auto simp: Let_def split: http_outcome.splits if_splits)
  qed
  from a b c d show ?thesis by blast
qed

lemma upload_world_facts:
  "\<not> os_path_exists upload_world (str ''missing.jpg'')"
  "os_path_exists upload_world (str ''departures.jpg'')"
  "open_rb upload_world (str ''departures.jpg'') = Inr OtherFile"
  "post upload_world rq = Response 200 (str ''OK'')"
  by (simp_all add: upload_world_def os_path_exists_def open_rb_def str_def)

lemma upload_world_request:
  "upload_request =
     \<lparr>url = format_env (env_DEVICE_URL upload_world) @ str ''?dir=''
              @ get_default (env_UPLOAD_DIR upload_world) (str ''/image/''),
      file_name = basename (str ''departures.jpg''), file_body = OtherFile,
      content_type = str ''image/jpeg'', timeout = 10\<rparr>"
  by (simp add: upload_request_def upload_world_def example_world_def format_env_def
      get_default_def basename_def str_def)

theorem upload_reports_success_witness:
  "\<not> os_path_exists upload_world (str ''missing.jpg'')
   \<and> upload_image upload_world (str ''missing.jpg'') = (Inr False, [])
   \<and> os_path_exists upload_world (str ''departures.jpg'')
   \<and> open_rb upload_world (str ''departures.jpg'') = Inr OtherFile
   \<and> post upload_world upload_request = Response 200 (str ''OK'')
   \<and> upload_image upload_world (str ''departures.jpg'') = (Inr True, [upload_request])
   \<and> fst (upload_main upload_world [str ''upload.py'']) = 0
   \<and> fst (upload_main upload_world [str ''upload.py'', str ''missing.jpg'']) \<noteq> 0
   \<and> (\<exists>rq status body.
         snd (upload_image upload_world (str ''departures.jpg'')) = [rq]
         \<and> post upload_world rq = Response status body
         \<and> \<not> (400 \<le> status \<and> status < 600))"
proof -
  note missing = upload_reports_success
    [where w = upload_world and path = "str ''missing.jpg''"
       and argv = "[str ''upload.py'', str ''missing.jpg'']"]
  note there = upload_reports_success
    [where w = upload_world and path = "str ''departures.jpg''" and f = OtherFile
       and req = upload_request and status = 200 and body = "str ''OK''"
       and argv = "[str ''upload.py'']"]
  from missing upload_world_facts
  have m: "upload_image upload_world (str ''missing.jpg'') = (Inr False, [])"
    by blast
  from there upload_world_facts upload_world_request
  have t: "upload_image upload_world (str ''departures.jpg'') = (Inr True, [upload_request])"
    by simp
  from there t have e0: "fst (upload_main upload_world [str ''upload.py'']) = 0"
    by (simp add: IMAGE_FILE_def)
  from missing m
  have e1: "fst (upload_main upload_world [str ''upload.py'', str ''missing.jpg'']) \<noteq> 0"
    by simp
  from t have "fst (upload_image upload_world (str ''departures.jpg'')) = Inr True"
    by simp
  note sent = there [THEN conjunct2, THEN conjunct2, THEN conjunct2, rule_format, OF this]
  show ?thesis
    using upload_world_facts(1) m upload_world_facts(2,3) upload_world_facts(4) t e0 e1 sent
    by (intro conjI)
qed

end
